theory Spec2Isabelle
  imports Main "HOL-Library.AList"
begin

section \<open>JavaScript values\<close>

text \<open>
  The queries of \<^verbatim>\<open>src/query/spec.ts\<close> and the rules of
  \<^verbatim>\<open>src/constraint/spec.ts\<close> read plain JavaScript objects: they test properties
  for truthiness, compare them with \<^verbatim>\<open>===\<close> and enumerate them with
  \<^verbatim>\<open>for ... in\<close>. A value is therefore a tree of this datatype; an object is an
  association list, in the order \<^verbatim>\<open>for ... in\<close> visits its keys. Numbers are
  integers here: no rule computes with them.
\<close>

datatype jsval =
    JUndefined
  | JNull
  | JBool bool
  | JNum int
  | JStr string
  | JArr "jsval list"
  | JObj "(string \<times> jsval) list"

type_synonym jsobj = "(string \<times> jsval) list"

text \<open>\<^verbatim>\<open>!!v\<close>, the truthiness every \<^verbatim>\<open>if (v)\<close>, \<^verbatim>\<open>!v\<close> and \<^verbatim>\<open>v ? a : b\<close> tests.\<close>

fun truthy :: "jsval \<Rightarrow> bool" where
  "truthy JUndefined = False"
| "truthy JNull = False"
| "truthy (JBool b) = b"
| "truthy (JNum n) = (n \<noteq> 0)"
| "truthy (JStr s) = (s \<noteq> [])"
| "truthy (JArr xs) = True"
| "truthy (JObj kvs) = True"

text \<open>The decimal text of an index, the key under which a string or an array holds it.\<close>

definition digit :: "nat \<Rightarrow> char" where
  "digit d = ''0123456789'' ! d"

function string_of_nat :: "nat \<Rightarrow> string" where
  "string_of_nat n =
     (if n < 10 then [digit n] else string_of_nat (n div 10) @ [digit (n mod 10)])"
  by pat_completeness auto
termination
  by (relation "measure (\<lambda>n. n)") auto

declare string_of_nat.simps [simp del]

text \<open>
  The own enumerable properties of a value, as \<^verbatim>\<open>for (const k in v)\<close> visits them
  and \<^verbatim>\<open>v.hasOwnProperty(k)\<close> confirms them: the entries of an object, the
  indexed elements of an array, the indexed characters of a string, and nothing
  for the other primitives.
\<close>

fun ownEntries :: "jsval \<Rightarrow> (string \<times> jsval) list" where
  "ownEntries (JObj kvs) = kvs"
| "ownEntries (JArr xs) = map (\<lambda>i. (string_of_nat i, xs ! i)) [0..<length xs]"
| "ownEntries (JStr s) = map (\<lambda>i. (string_of_nat i, JStr [s ! i])) [0..<length s]"
| "ownEntries v = []"

definition keys :: "jsval \<Rightarrow> string list" where
  "keys v = map fst (ownEntries v)"

text \<open>
  \<^verbatim>\<open>o[k]\<close> on an object: the value stored under the key, \<^verbatim>\<open>undefined\<close> when the
  key is absent.
\<close>

definition objProp :: "jsobj \<Rightarrow> string \<Rightarrow> jsval" where
  "objProp obj k = (case map_of obj k of None \<Rightarrow> JUndefined | Some v \<Rightarrow> v)"

text \<open>
  \<^verbatim>\<open>v[k]\<close> on any value that the code has already found truthy. Inherited members
  (\<^verbatim>\<open>length\<close>, methods) are read as \<^verbatim>\<open>undefined\<close>: none of them is a placeholder,
  which is all the code asks of the result.
\<close>

definition getProp :: "jsval \<Rightarrow> string \<Rightarrow> jsval" where
  "getProp v k = objProp (ownEntries v) k"

text \<open>\<^verbatim>\<open>contains(array, item)\<close> of \<^verbatim>\<open>util\<close>.\<close>

definition contains :: "'a list \<Rightarrow> 'a \<Rightarrow> bool" where
  "contains xs x = (x \<in> set xs)"

section \<open>Wildcards and encoding queries\<close>

definition SHORT_WILDCARD :: jsval where
  "SHORT_WILDCARD = JStr ''?''"

text \<open>
  Modelled from the spec: \<^verbatim>\<open>isWildcard\<close> of \<^verbatim>\<open>src/wildcard.ts\<close>, which is not
  among the sources. A Wildcard Value is "a placeholder carrying a logical name
  and (optionally) a fixed enumeration of candidate values"; the tests of
  \<^verbatim>\<open>hasWildcard\<close> also use the short form \<^verbatim>\<open>'?'\<close>. So a value is a placeholder
  when it is the short wildcard, or an object whose \<^verbatim>\<open>enum\<close> or \<^verbatim>\<open>name\<close> is truthy.
\<close>

fun isWildcardDef :: "jsval \<Rightarrow> bool" where
  "isWildcardDef (JObj kvs) = (truthy (objProp kvs ''enum'') \<or> truthy (objProp kvs ''name''))"
| "isWildcardDef v = False"

definition isWildcard :: "jsval \<Rightarrow> bool" where
  "isWildcard v = (v = SHORT_WILDCARD \<or> isWildcardDef v)"

type_synonym EncodingQuery = jsobj

text \<open>The channel names of Vega-Lite's \<^verbatim>\<open>Channel\<close> that the code compares with.\<close>

abbreviation Channel_X :: jsval where "Channel_X \<equiv> JStr ''x''"
abbreviation Channel_Y :: jsval where "Channel_Y \<equiv> JStr ''y''"
abbreviation Channel_COLOR :: jsval where "Channel_COLOR \<equiv> JStr ''color''"
abbreviation Channel_SIZE :: jsval where "Channel_SIZE \<equiv> JStr ''size''"
abbreviation Channel_TEXT :: jsval where "Channel_TEXT \<equiv> JStr ''text''"

text \<open>
  Modelled from the spec: the variant tests of \<^verbatim>\<open>src/query/encoding.ts\<close>, which is
  not among the sources. An encoding mapping is field-backed, auto-count or
  literal-value. \<^verbatim>\<open>fromSpec\<close> tests \<^verbatim>\<open>isFieldQuery(encQ) && encQ.aggregate ===
  'count' && !encQ.field\<close>, so a mapping is field-backed when it carries a field
  or is a count aggregate; an auto-count mapping carries the \<^verbatim>\<open>autoCount\<close> key,
  enabled when it is \<^verbatim>\<open>true\<close> and disabled when it is \<^verbatim>\<open>false\<close>; a literal-value
  mapping carries a \<^verbatim>\<open>value\<close>.
\<close>

definition isFieldQuery :: "EncodingQuery \<Rightarrow> bool" where
  "isFieldQuery encQ =
     (truthy (objProp encQ ''field'') \<or> objProp encQ ''aggregate'' = JStr ''count'')"

definition isAutoCountQuery :: "EncodingQuery \<Rightarrow> bool" where
  "isAutoCountQuery encQ = (''autoCount'' \<in> fst ` set encQ)"

definition isEnabledAutoCountQuery :: "EncodingQuery \<Rightarrow> bool" where
  "isEnabledAutoCountQuery encQ =
     (isAutoCountQuery encQ \<and> objProp encQ ''autoCount'' = JBool True)"

definition isDisabledAutoCountQuery :: "EncodingQuery \<Rightarrow> bool" where
  "isDisabledAutoCountQuery encQ =
     (isAutoCountQuery encQ \<and> objProp encQ ''autoCount'' = JBool False)"

definition isValueQuery :: "EncodingQuery \<Rightarrow> bool" where
  "isValueQuery encQ = truthy (objProp encQ ''value'')"

section \<open>Specification queries (\<^verbatim>\<open>src/query/spec.ts\<close>)\<close>

record SpecQuery =
  data :: "jsval option"
  mark :: jsval
  transform :: "jsval option"
  encodings :: "EncodingQuery list"
  config :: "jsval option"

definition isAggregate :: "SpecQuery \<Rightarrow> bool" where
  "isAggregate specQ =
     list_ex (\<lambda>encQ.
         (isFieldQuery encQ \<and> \<not> isWildcard (objProp encQ ''aggregate'')
            \<and> truthy (objProp encQ ''aggregate''))
         \<or> isEnabledAutoCountQuery encQ)
       (encodings specQ)"

definition isExplicitStack :: "SpecQuery \<Rightarrow> bool" where
  "isExplicitStack specQ =
     list_ex (\<lambda>encQ.
         isFieldQuery encQ \<and> \<not> isWildcard (objProp encQ ''stack'')
           \<and> truthy (objProp encQ ''stack''))
       (encodings specQ)"

text \<open>The four flags the loop of \<^verbatim>\<open>isImplicitStack\<close> sets.\<close>

record StackFlags =
  xUsed :: bool
  yUsed :: bool
  xOrYAggregateOrAutoCount :: bool
  colorUsed :: bool

text \<open>
  One round of the loop. The \<^verbatim>\<open>switch\<close> has no \<^verbatim>\<open>break\<close>: control enters at the
  label that equals the channel and runs through every label below it. So the
  statements of \<^verbatim>\<open>case Channel.X\<close> run for \<^verbatim>\<open>x\<close>, those of \<^verbatim>\<open>case Channel.Y\<close> for
  \<^verbatim>\<open>x\<close> and \<^verbatim>\<open>y\<close>, and the one of \<^verbatim>\<open>case Channel.COLOR\<close> for all three.
\<close>

definition stackSwitch :: "EncodingQuery \<Rightarrow> StackFlags \<Rightarrow> StackFlags" where
  "stackSwitch encQ st =
     (let ch = objProp encQ ''channel'';
          agg = truthy (objProp encQ ''aggregate'');
          st1 = (if ch = Channel_X
                 then st\<lparr>xUsed := True,
                         xOrYAggregateOrAutoCount :=
                           (if agg then True else xOrYAggregateOrAutoCount st)\<rparr>
                 else st);
          st2 = (if ch = Channel_X \<or> ch = Channel_Y
                 then st1\<lparr>yUsed := True,
                          xOrYAggregateOrAutoCount :=
                            (if agg then True else xOrYAggregateOrAutoCount st1)\<rparr>
                 else st1);
          st3 = (if ch = Channel_X \<or> ch = Channel_Y \<or> ch = Channel_COLOR
                 then st2\<lparr>colorUsed := True\<rparr>
                 else st2)
      in st3)"

definition stackStep :: "EncodingQuery \<Rightarrow> StackFlags \<Rightarrow> StackFlags" where
  "stackStep encQ st =
     (if isFieldQuery encQ then stackSwitch encQ st
      else if isAutoCountQuery encQ
                \<and> (objProp encQ ''channel'' = Channel_X \<or> objProp encQ ''channel'' = Channel_Y)
      then st\<lparr>xOrYAggregateOrAutoCount := True\<rparr>
      else st)"

definition isImplicitStack :: "SpecQuery \<Rightarrow> bool" where
  "isImplicitStack specQ =
     (if isExplicitStack specQ then False
      else
        (let st = fold stackStep (encodings specQ)
                    \<lparr>xUsed = False, yUsed = False,
                     xOrYAggregateOrAutoCount = False, colorUsed = False\<rparr>
         in xUsed st \<and> yUsed st \<and> xOrYAggregateOrAutoCount st \<and> colorUsed st))"

definition isStack :: "SpecQuery \<Rightarrow> bool" where
  "isStack specQ = (isExplicitStack specQ \<or> isImplicitStack specQ)"

section \<open>Properties\<close>

text \<open>
  A property is flat (a name such as \<^verbatim>\<open>mark\<close> or \<^verbatim>\<open>channel\<close>) or nested (a
  parent and a child, \<^verbatim>\<open>getEncodingNestedProp('scale', 'zero')\<close>).
\<close>

datatype Property = Flat string | EncodingNestedProp string string

abbreviation Property_MARK :: Property where "Property_MARK \<equiv> Flat ''mark''"
abbreviation Property_CHANNEL :: Property where "Property_CHANNEL \<equiv> Flat ''channel''"
abbreviation Property_AGGREGATE :: Property where "Property_AGGREGATE \<equiv> Flat ''aggregate''"
abbreviation Property_AUTOCOUNT :: Property where "Property_AUTOCOUNT \<equiv> Flat ''autoCount''"
abbreviation Property_BIN :: Property where "Property_BIN \<equiv> Flat ''bin''"
abbreviation Property_TIMEUNIT :: Property where "Property_TIMEUNIT \<equiv> Flat ''timeUnit''"
abbreviation Property_FIELD :: Property where "Property_FIELD \<equiv> Flat ''field''"
abbreviation Property_TYPE :: Property where "Property_TYPE \<equiv> Flat ''type''"
abbreviation Property_SCALE :: Property where "Property_SCALE \<equiv> Flat ''scale''"

definition getEncodingNestedProp :: "string \<Rightarrow> string \<Rightarrow> Property" where
  "getEncodingNestedProp parent child = EncodingNestedProp parent child"

text \<open>
  Modelled from the spec: \<^verbatim>\<open>src/property.ts\<close> is not among the sources. The
  canonical key of a property is its "flat name, or \<^verbatim>\<open>"parent.child"\<close> for nested";
  an encoding mapping is "a channel plus a set of further properties (field,
  type, aggregate, bin, timeUnit, scale, axis, legend, sort, stack, autoCount, or
  a literal value in place of a field)", which are the top-level encoding
  properties; an encoding property is one of these or a nested one.
\<close>

fun toKey :: "Property \<Rightarrow> string" where
  "toKey (Flat p) = p"
| "toKey (EncodingNestedProp parent child) = parent @ ''.'' @ child"

definition ENCODING_TOPLEVEL_PROPS :: "string list" where
  "ENCODING_TOPLEVEL_PROPS =
     [''channel'', ''field'', ''type'', ''aggregate'', ''bin'', ''timeUnit'', ''scale'',
      ''axis'', ''legend'', ''sort'', ''stack'', ''autoCount'', ''value'']"

definition isEncodingTopLevelProperty :: "string \<Rightarrow> bool" where
  "isEncodingTopLevelProperty p = (p \<in> set ENCODING_TOPLEVEL_PROPS)"

fun isEncodingNestedProp :: "Property \<Rightarrow> bool" where
  "isEncodingNestedProp (EncodingNestedProp parent child) = True"
| "isEncodingNestedProp (Flat p) = False"

fun isEncodingProperty :: "Property \<Rightarrow> bool" where
  "isEncodingProperty (EncodingNestedProp parent child) = True"
| "isEncodingProperty (Flat p) = isEncodingTopLevelProperty p"

section \<open>\<^verbatim>\<open>fromSpec\<close>\<close>

text \<open>
  The body of \<^verbatim>\<open>for (const prop in channelDef)\<close>: \<^verbatim>\<open>encQ[prop] = v\<close> replaces the
  value of a key the object has and appends a key it has not, which is
  \<^const>\<open>AList.update\<close>.
\<close>

definition copyProp :: "jsval \<Rightarrow> string \<Rightarrow> EncodingQuery \<Rightarrow> EncodingQuery" where
  "copyProp channelDef p encQ =
     (if isEncodingTopLevelProperty p \<and> getProp channelDef p \<noteq> JUndefined then
        (if contains [''bin'', ''scale'', ''axis'', ''legend''] p \<and> getProp channelDef p = JNull
         then AList.update p (JBool False) encQ
         else AList.update p (getProp channelDef p) encQ)
      else encQ)"

text \<open>The function mapped over \<^verbatim>\<open>keys(spec.encoding)\<close>.\<close>

definition toEncodingQuery :: "jsval \<Rightarrow> string \<Rightarrow> EncodingQuery" where
  "toEncodingQuery encoding channel =
     (let channelDef = getProp encoding channel;
          encQ = fold (copyProp channelDef) (keys channelDef) [(''channel'', JStr channel)]
      in if isFieldQuery encQ \<and> objProp encQ ''aggregate'' = JStr ''count''
              \<and> \<not> truthy (objProp encQ ''field'')
         then AList.update ''field'' (JStr ''*'') encQ
         else encQ)"

text \<open>
  \<^verbatim>\<open>extend\<close> merges the four objects; a key of the result that is absent is
  \<^const>\<open>None\<close>. The input document is a JavaScript object.
\<close>

definition fromSpec :: "jsval \<Rightarrow> SpecQuery" where
  "fromSpec spec =
     \<lparr>data = (if truthy (getProp spec ''data'') then Some (getProp spec ''data'') else None),
      mark = getProp spec ''mark'',
      transform =
        (if truthy (getProp spec ''transform'') then Some (getProp spec ''transform'')
         else None),
      encodings =
        map (toEncodingQuery (getProp spec ''encoding'')) (keys (getProp spec ''encoding'')),
      config =
        (if truthy (getProp spec ''config'') then Some (getProp spec ''config'') else None)\<rparr>"

text \<open>
  The words of the claim about \<^verbatim>\<open>fromSpec\<close>: a null \<^verbatim>\<open>bin\<close>, \<^verbatim>\<open>scale\<close>, \<^verbatim>\<open>axis\<close> or
  \<^verbatim>\<open>legend\<close> becomes \<^verbatim>\<open>false\<close> and every other value is copied as it is; a channel
  definition with the aggregate \<^verbatim>\<open>count\<close> and no field gets the field \<^verbatim>\<open>'*'\<close>; what
  an encoding query then holds under a property other than \<^verbatim>\<open>channel\<close>.
\<close>

definition normalizeValue :: "string \<Rightarrow> jsval \<Rightarrow> jsval" where
  "normalizeValue p v =
     (if p \<in> {''bin'', ''scale'', ''axis'', ''legend''} \<and> v = JNull then JBool False else v)"

definition countWithoutField :: "jsval \<Rightarrow> bool" where
  "countWithoutField channelDef =
     (getProp channelDef ''aggregate'' = JStr ''count''
      \<and> \<not> truthy (getProp channelDef ''field''))"

definition expectedProp :: "jsval \<Rightarrow> string \<Rightarrow> jsval" where
  "expectedProp channelDef p =
     (if \<not> isEncodingTopLevelProperty p then JUndefined
      else if p = ''field'' \<and> countWithoutField channelDef then JStr ''*''
      else normalizeValue p (getProp channelDef p))"

section \<open>\<^verbatim>\<open>hasWildcard\<close>\<close>

text \<open>
  \<^verbatim>\<open>opt.exclude ? toMap(opt.exclude.map(toKey)) : {}\<close>: the keys of the excluded
  properties; \<^verbatim>\<open>exclude[k]\<close> is truthy exactly for them.
\<close>

definition excludeMap :: "Property list option \<Rightarrow> string \<Rightarrow> bool" where
  "excludeMap ex k = (case ex of None \<Rightarrow> False | Some ps \<Rightarrow> k \<in> set (map toKey ps))"

text \<open>The body of the inner loop, for one \<^verbatim>\<open>childProp\<close> of \<^verbatim>\<open>propObj\<close>.\<close>

definition childWildcard :: "(string \<Rightarrow> bool) \<Rightarrow> string \<Rightarrow> jsval \<Rightarrow> string \<Rightarrow> bool" where
  "childWildcard exclude parentProp propObj childProp =
     (\<not> contains [''enum'', ''name''] childProp
      \<and> isWildcard (getProp propObj childProp)
      \<and> \<not> exclude (toKey (EncodingNestedProp parentProp childProp)))"

text \<open>
  The body of the loop over the keys of one encoding: true when it reaches a
  \<^verbatim>\<open>return true\<close>.
\<close>

definition propWildcard :: "(string \<Rightarrow> bool) \<Rightarrow> EncodingQuery \<Rightarrow> string \<Rightarrow> bool" where
  "propWildcard exclude encQ parentProp =
     (isEncodingTopLevelProperty parentProp
      \<and> ((isWildcard (objProp encQ parentProp) \<and> \<not> exclude parentProp)
         \<or> list_ex (childWildcard exclude parentProp (objProp encQ parentProp))
              (keys (objProp encQ parentProp))))"

definition hasWildcard :: "SpecQuery \<Rightarrow> Property list option \<Rightarrow> bool" where
  "hasWildcard specQ ex =
     (let exclude = excludeMap ex in
      if isWildcard (mark specQ) \<and> \<not> exclude ''mark'' then True
      else list_ex (\<lambda>encQ. list_ex (propWildcard exclude encQ) (map fst encQ))
             (encodings specQ))"

section \<open>The specification query model\<close>

text \<open>
  Modelled from the spec: \<^verbatim>\<open>src/model.ts\<close> and \<^verbatim>\<open>src/wildcardindex.ts\<close> are not
  among the sources. The model "wraps a Specification Query with a derived
  wildcard index", which answers "does encoding \<^emph>\<open>i\<close> have property P enumerated?"
  and "is property P enumerated anywhere?". The index is a field of its own: the
  rules read it next to the query and never derive it. \<^verbatim>\<open>getEncodings\<close> gives the
  usable mappings ("auto-count mappings explicitly disabled are filtered out"),
  \<^verbatim>\<open>channelUsed\<close> is "true iff some usable encoding binds that exact channel",
  \<^verbatim>\<open>getEncodingQueryByChannel\<close> is the lookup with "a sentinel meaning not
  present", and \<^verbatim>\<open>isAggregate\<close> is the function of \<^verbatim>\<open>src/query/spec.ts\<close>.
\<close>

record WildcardIndex =
  markEnumerated :: bool
  encodingProperties :: "(nat \<times> string) list"

definition hasEncodingProperty :: "WildcardIndex \<Rightarrow> nat \<Rightarrow> Property \<Rightarrow> bool" where
  "hasEncodingProperty wi i p = ((i, toKey p) \<in> set (encodingProperties wi))"

definition hasProperty :: "WildcardIndex \<Rightarrow> Property \<Rightarrow> bool" where
  "hasProperty wi p =
     (if p = Property_MARK then markEnumerated wi
      else toKey p \<in> snd ` set (encodingProperties wi))"

record SpecQueryModel =
  specQuery :: SpecQuery
  wildcardIndex :: WildcardIndex

definition getMark :: "SpecQueryModel \<Rightarrow> jsval" where
  "getMark specM = mark (specQuery specM)"

definition getEncodings :: "SpecQueryModel \<Rightarrow> EncodingQuery list" where
  "getEncodings specM =
     filter (\<lambda>encQ. \<not> isDisabledAutoCountQuery encQ) (encodings (specQuery specM))"

definition channelUsed :: "SpecQueryModel \<Rightarrow> jsval \<Rightarrow> bool" where
  "channelUsed specM channel =
     list_ex (\<lambda>encQ. objProp encQ ''channel'' = channel) (getEncodings specM)"

definition getEncodingQueryByChannel :: "SpecQueryModel \<Rightarrow> jsval \<Rightarrow> EncodingQuery option" where
  "getEncodingQueryByChannel specM channel =
     find (\<lambda>encQ. objProp encQ ''channel'' = channel) (encodings (specQuery specM))"

section \<open>Constraints (\<^verbatim>\<open>src/constraint/spec.ts\<close>)\<close>

text \<open>
  What a rule can throw: \<^verbatim>\<open>new Error('UNIMPLEMENTED')\<close>,
  \<^verbatim>\<open>new Error('Unsupported Type')\<close>, and the error of an exhaustive mark switch,
  whose message is \<^verbatim>\<open>'hasAllRequiredChannelsForMark not implemented for mark'\<close>
  followed by the mark, which the constructor carries.
\<close>

datatype error = UNIMPLEMENTED | Unsupported_Type | NotImplementedForMark jsval

type_synonym QueryConfig = jsobj

type_synonym 's SpecConstraintChecker =
  "SpecQueryModel \<Rightarrow> 's \<Rightarrow> QueryConfig \<Rightarrow> error + bool"

text \<open>
  A constraint of the catalogue, without its description (a text no code
  reads). The schema is opaque: \<^typ>\<open>'s\<close>.
\<close>

record 's SpecConstraint =
  name :: string
  properties :: "Property list"
  allowWildcardForProperties :: bool
  strict :: bool
  satisfy :: "'s SpecConstraintChecker"

text \<open>
  \<^verbatim>\<open>every(arr, f)\<close> of \<^verbatim>\<open>util\<close>, for an \<^verbatim>\<open>f\<close> that can throw: it stops at the first
  element that fails, and an exception leaves it.
\<close>

fun every :: "('a \<Rightarrow> error + bool) \<Rightarrow> 'a list \<Rightarrow> error + bool" where
  "every f [] = Inr True"
| "every f (x # xs) =
     (case f x of
        Inl e \<Rightarrow> Inl e
      | Inr ok \<Rightarrow> if ok then every f xs else Inr False)"

text \<open>The callback of \<^verbatim>\<open>hasAllRequiredPropertiesSpecific\<close>, for one declared property.\<close>

definition propertySpecific :: "SpecQueryModel \<Rightarrow> Property \<Rightarrow> error + bool" where
  "propertySpecific specM p =
     (if p = Property_MARK then Inr (\<not> isWildcard (getMark specM))
      else
        (case p of
           EncodingNestedProp parent child \<Rightarrow>
             Inr (list_all
                   (\<lambda>encQ. if \<not> truthy (objProp encQ parent) then True
                           else \<not> isWildcard (getProp (objProp encQ parent) child))
                   (getEncodings specM))
         | Flat q \<Rightarrow>
             if \<not> isEncodingProperty p then Inl UNIMPLEMENTED
             else
               Inr (list_all
                     (\<lambda>encQ. if \<not> truthy (objProp encQ q) then True
                             else \<not> isWildcard (objProp encQ q))
                     (getEncodings specM))))"

definition hasAllRequiredPropertiesSpecific ::
  "'s SpecConstraint \<Rightarrow> SpecQueryModel \<Rightarrow> error + bool" where
  "hasAllRequiredPropertiesSpecific c specM = every (propertySpecific specM) (properties c)"

text \<open>\<^verbatim>\<open>SpecConstraintModel.satisfy\<close>, the method that wraps the rule's predicate.\<close>

definition SpecConstraintModel_satisfy ::
  "'s SpecConstraint \<Rightarrow> SpecQueryModel \<Rightarrow> 's \<Rightarrow> QueryConfig \<Rightarrow> error + bool" where
  "SpecConstraintModel_satisfy c specM schema opt =
     (if \<not> allowWildcardForProperties c then
        (case hasAllRequiredPropertiesSpecific c specM of
           Inl e \<Rightarrow> Inl e
         | Inr specific \<Rightarrow>
             if \<not> specific then Inr True else satisfy c specM schema opt)
      else satisfy c specM schema opt)"

section \<open>The rules with an exhaustive mark switch\<close>

abbreviation Mark_AREA :: jsval where "Mark_AREA \<equiv> JStr ''area''"
abbreviation Mark_BAR :: jsval where "Mark_BAR \<equiv> JStr ''bar''"
abbreviation Mark_LINE :: jsval where "Mark_LINE \<equiv> JStr ''line''"
abbreviation Mark_POINT :: jsval where "Mark_POINT \<equiv> JStr ''point''"
abbreviation Mark_TEXT :: jsval where "Mark_TEXT \<equiv> JStr ''text''"
abbreviation Mark_TICK :: jsval where "Mark_TICK \<equiv> JStr ''tick''"
abbreviation Mark_RECT :: jsval where "Mark_RECT \<equiv> JStr ''rect''"
abbreviation Mark_RULE :: jsval where "Mark_RULE \<equiv> JStr ''rule''"
abbreviation Mark_CIRCLE :: jsval where "Mark_CIRCLE \<equiv> JStr ''circle''"
abbreviation Mark_SQUARE :: jsval where "Mark_SQUARE \<equiv> JStr ''square''"

definition hasAllRequiredChannelsForMark :: "'s SpecConstraintChecker" where
  "hasAllRequiredChannelsForMark specM schema opt =
     (let mark = getMark specM in
      if mark = Mark_AREA \<or> mark = Mark_LINE then
        Inr (channelUsed specM Channel_X \<and> channelUsed specM Channel_Y)
      else if mark = Mark_TEXT then
        Inr (channelUsed specM Channel_TEXT)
      else if mark = Mark_BAR \<or> mark = Mark_CIRCLE \<or> mark = Mark_SQUARE
                \<or> mark = Mark_TICK \<or> mark = Mark_RULE \<or> mark = Mark_RECT then
        Inr (channelUsed specM Channel_X \<or> channelUsed specM Channel_Y)
      else if mark = Mark_POINT then
        Inr (\<not> hasProperty (wildcardIndex specM) Property_CHANNEL
             \<or> channelUsed specM Channel_X \<or> channelUsed specM Channel_Y)
      else Inl (NotImplementedForMark mark))"

text \<open>
  \<^verbatim>\<open>isMeasure\<close> and \<^verbatim>\<open>isDimension\<close> of \<^verbatim>\<open>src/query/encoding.ts\<close> classify a mapping
  with Vega-Lite's field definitions; they are parameters here, applied to the
  result of the channel lookup.
\<close>

definition isFieldQueryOpt :: "EncodingQuery option \<Rightarrow> bool" where
  "isFieldQueryOpt e = (case e of None \<Rightarrow> False | Some encQ \<Rightarrow> isFieldQuery encQ)"

definition typeOf :: "EncodingQuery option \<Rightarrow> jsval" where
  "typeOf e = (case e of None \<Rightarrow> JUndefined | Some encQ \<Rightarrow> objProp encQ ''type'')"

definition hasAppropriateGraphicTypeForMark ::
  "(EncodingQuery option \<Rightarrow> bool) \<Rightarrow> (EncodingQuery option \<Rightarrow> bool)
     \<Rightarrow> 's SpecConstraintChecker" where
  "hasAppropriateGraphicTypeForMark isMeasure isDimension specM schema opt =
     (let mark = getMark specM;
          xEncQ = getEncodingQueryByChannel specM Channel_X;
          yEncQ = getEncodingQueryByChannel specM Channel_Y;
          xIsMeasure = isMeasure xEncQ;
          yIsMeasure = isMeasure yEncQ
      in
      if mark = Mark_AREA \<or> mark = Mark_LINE then
        (if isAggregate (specQuery specM) then
           Inr (xEncQ \<noteq> None \<and> yEncQ \<noteq> None \<and> xIsMeasure \<noteq> yIsMeasure
                \<and> \<not> (isFieldQueryOpt xEncQ \<and> \<not> xIsMeasure
                       \<and> contains [JStr ''nominal'', JStr ''key''] (typeOf xEncQ))
                \<and> \<not> (isFieldQueryOpt yEncQ \<and> \<not> yIsMeasure
                       \<and> contains [JStr ''nominal'', JStr ''key''] (typeOf yEncQ)))
         else Inr True)
      else if mark = Mark_TEXT then Inr True
      else if mark = Mark_BAR \<or> mark = Mark_TICK then
        (if channelUsed specM Channel_SIZE then Inr False
         else if xIsMeasure \<noteq> yIsMeasure then Inr True
         else Inr False)
      else if mark = Mark_RECT then
        (let xIsDimension = isDimension xEncQ;
             yIsDimension = isDimension yEncQ;
             colorEncQ = getEncodingQueryByChannel specM Channel_COLOR;
             colorIsQuantitative = isMeasure colorEncQ;
             colorIsOrdinal =
               (if isFieldQueryOpt colorEncQ then typeOf colorEncQ = JStr ''ordinal''
                else False);
             correctChannels =
               ((xIsDimension \<and> yIsDimension)
                \<or> (xIsDimension \<and> \<not> channelUsed specM Channel_Y)
                \<or> (yIsDimension \<and> \<not> channelUsed specM Channel_X));
             correctColor =
               (colorEncQ = None
                \<or> (colorEncQ \<noteq> None \<and> (colorIsQuantitative \<or> colorIsOrdinal)))
         in Inr (correctChannels \<and> correctColor))
      else if mark = Mark_CIRCLE \<or> mark = Mark_POINT \<or> mark = Mark_SQUARE
                \<or> mark = Mark_RULE then
        Inr True
      else Inl (NotImplementedForMark mark))"

section \<open>The catalogue, the property index and \<^verbatim>\<open>checkSpec\<close>\<close>

text \<open>
  \<^verbatim>\<open>SPEC_CONSTRAINTS\<close>, in registration order. The predicates of the two rules with
  a mark switch are the definitions above; the predicate of every other rule is
  \<^verbatim>\<open>body\<close> at the rule's name, a parameter: those predicates call into Vega-Lite
  (\<^verbatim>\<open>supportMark\<close>, \<^verbatim>\<open>scaleType\<close>, \<^verbatim>\<open>stack\<close>), and nothing below depends on what
  they compute.
\<close>

definition SPEC_CONSTRAINTS ::
  "(EncodingQuery option \<Rightarrow> bool) \<Rightarrow> (EncodingQuery option \<Rightarrow> bool)
     \<Rightarrow> (string \<Rightarrow> 's SpecConstraintChecker) \<Rightarrow> 's SpecConstraint list" where
  "SPEC_CONSTRAINTS isMeasure isDimension body =
     [\<lparr>name = ''noRepeatedChannel'',
       properties =
         [Property_CHANNEL],
       allowWildcardForProperties = True, strict = True,
       satisfy = body ''noRepeatedChannel''\<rparr>,
      \<lparr>name = ''alwaysIncludeZeroInScaleWithBarMark'',
       properties =
         [Property_MARK, Property_SCALE, getEncodingNestedProp ''scale'' ''zero'',
          Property_CHANNEL, Property_TYPE],
       allowWildcardForProperties = False, strict = True,
       satisfy = body ''alwaysIncludeZeroInScaleWithBarMark''\<rparr>,
      \<lparr>name = ''autoAddCount'',
       properties =
         [Property_BIN, Property_TIMEUNIT, Property_TYPE, Property_AUTOCOUNT],
       allowWildcardForProperties = True, strict = False,
       satisfy = body ''autoAddCount''\<rparr>,
      \<lparr>name = ''channelPermittedByMarkType'',
       properties =
         [Property_CHANNEL, Property_MARK],
       allowWildcardForProperties = True, strict = True,
       satisfy = body ''channelPermittedByMarkType''\<rparr>,
      \<lparr>name = ''hasAllRequiredChannelsForMark'',
       properties =
         [Property_CHANNEL, Property_MARK],
       allowWildcardForProperties = False, strict = True,
       satisfy = hasAllRequiredChannelsForMark\<rparr>,
      \<lparr>name = ''omitAggregate'',
       properties =
         [Property_AGGREGATE, Property_AUTOCOUNT],
       allowWildcardForProperties = True, strict = False,
       satisfy = body ''omitAggregate''\<rparr>,
      \<lparr>name = ''omitAggregatePlotWithDimensionOnlyOnFacet'',
       properties =
         [Property_CHANNEL, Property_AGGREGATE, Property_AUTOCOUNT],
       allowWildcardForProperties = False, strict = False,
       satisfy = body ''omitAggregatePlotWithDimensionOnlyOnFacet''\<rparr>,
      \<lparr>name = ''omitAggregatePlotWithoutDimension'',
       properties =
         [Property_AGGREGATE, Property_AUTOCOUNT, Property_BIN, Property_TIMEUNIT,
          Property_TYPE],
       allowWildcardForProperties = False, strict = False,
       satisfy = body ''omitAggregatePlotWithoutDimension''\<rparr>,
      \<lparr>name = ''omitBarLineAreaWithOcclusion'',
       properties =
         [Property_MARK, Property_AGGREGATE, Property_AUTOCOUNT],
       allowWildcardForProperties = False, strict = False,
       satisfy = body ''omitBarLineAreaWithOcclusion''\<rparr>,
      \<lparr>name = ''omitBarTickWithSize'',
       properties =
         [Property_CHANNEL, Property_MARK],
       allowWildcardForProperties = True, strict = False,
       satisfy = body ''omitBarTickWithSize''\<rparr>,
      \<lparr>name = ''omitBarAreaForLogScale'',
       properties =
         [Property_MARK, Property_CHANNEL, Property_SCALE,
          getEncodingNestedProp ''scale'' ''type'', Property_TYPE],
       allowWildcardForProperties = False, strict = True,
       satisfy = body ''omitBarAreaForLogScale''\<rparr>,
      \<lparr>name = ''omitMultipleNonPositionalChannels'',
       properties =
         [Property_CHANNEL],
       allowWildcardForProperties = True, strict = False,
       satisfy = body ''omitMultipleNonPositionalChannels''\<rparr>,
      \<lparr>name = ''omitNonPositionalOrFacetOverPositionalChannels'',
       properties =
         [Property_CHANNEL],
       allowWildcardForProperties = False, strict = False,
       satisfy = body ''omitNonPositionalOrFacetOverPositionalChannels''\<rparr>,
      \<lparr>name = ''omitRaw'',
       properties =
         [Property_AGGREGATE, Property_AUTOCOUNT],
       allowWildcardForProperties = False, strict = False,
       satisfy = body ''omitRaw''\<rparr>,
      \<lparr>name = ''omitRawContinuousFieldForAggregatePlot'',
       properties =
         [Property_AGGREGATE, Property_AUTOCOUNT, Property_TIMEUNIT, Property_BIN,
          Property_TYPE],
       allowWildcardForProperties = True, strict = False,
       satisfy = body ''omitRawContinuousFieldForAggregatePlot''\<rparr>,
      \<lparr>name = ''omitRawDetail'',
       properties =
         [Property_CHANNEL, Property_AGGREGATE, Property_AUTOCOUNT],
       allowWildcardForProperties = False, strict = True,
       satisfy = body ''omitRawDetail''\<rparr>,
      \<lparr>name = ''omitRepeatedField'',
       properties =
         [Property_FIELD],
       allowWildcardForProperties = True, strict = False,
       satisfy = body ''omitRepeatedField''\<rparr>,
      \<lparr>name = ''omitVerticalDotPlot'',
       properties =
         [Property_CHANNEL],
       allowWildcardForProperties = True, strict = False,
       satisfy = body ''omitVerticalDotPlot''\<rparr>,
      \<lparr>name = ''hasAppropriateGraphicTypeForMark'',
       properties =
         [Property_CHANNEL, Property_MARK, Property_TYPE, Property_TIMEUNIT,
          Property_BIN, Property_AGGREGATE, Property_AUTOCOUNT],
       allowWildcardForProperties = False, strict = False,
       satisfy = hasAppropriateGraphicTypeForMark isMeasure isDimension\<rparr>,
      \<lparr>name = ''omitNonLinearScaleTypeWithStack'',
       properties =
         [Property_CHANNEL, Property_MARK, Property_AGGREGATE, Property_AUTOCOUNT,
          Property_SCALE, getEncodingNestedProp ''scale'' ''type'', Property_TYPE],
       allowWildcardForProperties = False, strict = True,
       satisfy = body ''omitNonLinearScaleTypeWithStack''\<rparr>,
      \<lparr>name = ''omitNonSumStack'',
       properties =
         [Property_CHANNEL, Property_MARK, Property_AGGREGATE, Property_AUTOCOUNT],
       allowWildcardForProperties = False, strict = False,
       satisfy = body ''omitNonSumStack''\<rparr>,
      \<lparr>name = ''omitTableWithOcclusionIfAutoAddCount'',
       properties =
         [Property_CHANNEL, Property_TYPE, Property_TIMEUNIT, Property_BIN,
          Property_AGGREGATE, Property_AUTOCOUNT],
       allowWildcardForProperties = False, strict = False,
       satisfy = body ''omitTableWithOcclusionIfAutoAddCount''\<rparr>]"

text \<open>
  Modelled from the spec: \<^verbatim>\<open>PropIndex\<close> of \<^verbatim>\<open>src/propindex.ts\<close>, which is not among
  the sources, is a "mapping from Property key to ordered list of Constraints":
  a map from the canonical key of a property.
\<close>

type_synonym 'a PropIndex = "string \<rightharpoonup> 'a"

definition PropIndex_get :: "'a PropIndex \<Rightarrow> Property \<Rightarrow> 'a option" where
  "PropIndex_get index p = index (toKey p)"

definition PropIndex_set :: "'a PropIndex \<Rightarrow> Property \<Rightarrow> 'a \<Rightarrow> 'a PropIndex" where
  "PropIndex_set index p v = index(toKey p \<mapsto> v)"

text \<open>The list an index holds under a key, empty when the key is absent.\<close>

definition entriesAt :: "'c list PropIndex \<Rightarrow> string \<Rightarrow> 'c list" where
  "entriesAt index k = (case index k of None \<Rightarrow> [] | Some cs \<Rightarrow> cs)"

text \<open>
  The body of \<^verbatim>\<open>for (const prop of c.properties())\<close>:
  \<^verbatim>\<open>index.set(prop, index.get(prop) || [])\<close> and then \<^verbatim>\<open>index.get(prop).push(c)\<close>.
\<close>

definition indexProperty ::
  "'c \<Rightarrow> Property \<Rightarrow> 'c list PropIndex \<Rightarrow> 'c list PropIndex" where
  "indexProperty c p index =
     (let index1 =
            PropIndex_set index p
              (case PropIndex_get index p of None \<Rightarrow> [] | Some cs \<Rightarrow> cs)
      in PropIndex_set index1 p
           ((case PropIndex_get index1 p of None \<Rightarrow> [] | Some cs \<Rightarrow> cs) @ [c]))"

text \<open>The \<^verbatim>\<open>reduce\<close> over a catalogue, from \<^verbatim>\<open>new PropIndex()\<close>.\<close>

definition buildIndex :: "'s SpecConstraint list \<Rightarrow> 's SpecConstraint list PropIndex" where
  "buildIndex catalogue =
     fold (\<lambda>c index. fold (indexProperty c) (properties c) index) catalogue Map.empty"

definition SPEC_CONSTRAINTS_BY_PROPERTY ::
  "(EncodingQuery option \<Rightarrow> bool) \<Rightarrow> (EncodingQuery option \<Rightarrow> bool)
     \<Rightarrow> (string \<Rightarrow> 's SpecConstraintChecker) \<Rightarrow> 's SpecConstraint list PropIndex" where
  "SPEC_CONSTRAINTS_BY_PROPERTY isMeasure isDimension body =
     buildIndex (SPEC_CONSTRAINTS isMeasure isDimension body)"

text \<open>
  The loop of \<^verbatim>\<open>checkSpec\<close> over the constraints found under the property. The
  result is the name of the violated constraint, \<^const>\<open>None\<close> for \<^verbatim>\<open>null\<close>, or
  the error a predicate threw. The \<^verbatim>\<open>console.log\<close> under \<^verbatim>\<open>opt.verbose\<close> changes
  no result and is left out.
\<close>

fun checkConstraints ::
  "'s SpecConstraint list \<Rightarrow> SpecQueryModel \<Rightarrow> 's \<Rightarrow> QueryConfig \<Rightarrow> error + string option" where
  "checkConstraints [] specM schema opt = Inr None"
| "checkConstraints (c # cs) specM schema opt =
     (if strict c \<or> truthy (objProp opt (name c)) then
        (case SpecConstraintModel_satisfy c specM schema opt of
           Inl e \<Rightarrow> Inl e
         | Inr sat \<Rightarrow>
             if \<not> sat then Inr (Some (''(spec) '' @ name c))
             else checkConstraints cs specM schema opt)
      else checkConstraints cs specM schema opt)"

text \<open>
  \<^verbatim>\<open>checkSpec\<close>. The index it reads, the module's \<^verbatim>\<open>SPEC_CONSTRAINTS_BY_PROPERTY\<close>,
  is its first argument; the wildcard is only logged.
\<close>

definition lookupConstraints :: "'c list PropIndex \<Rightarrow> Property \<Rightarrow> 'c list" where
  "lookupConstraints index p = (case PropIndex_get index p of None \<Rightarrow> [] | Some cs \<Rightarrow> cs)"

definition checkSpec ::
  "'s SpecConstraint list PropIndex \<Rightarrow> Property \<Rightarrow> jsval \<Rightarrow> SpecQueryModel \<Rightarrow> 's
     \<Rightarrow> QueryConfig \<Rightarrow> error + string option" where
  "checkSpec index p wildcard specM schema opt =
     (let specConstraints = lookupConstraints index p
      in checkConstraints specConstraints specM schema opt)"

text \<open>
  The words of the claims about the loop. A constraint is active when it is
  strict or enabled in the options; it passes when it is inactive or its
  \<^verbatim>\<open>satisfy\<close> method returns true.
\<close>

definition active :: "'s SpecConstraint \<Rightarrow> QueryConfig \<Rightarrow> bool" where
  "active c opt = (strict c \<or> truthy (objProp opt (name c)))"

definition passes :: "SpecQueryModel \<Rightarrow> 's \<Rightarrow> QueryConfig \<Rightarrow> 's SpecConstraint \<Rightarrow> bool" where
  "passes specM schema opt c =
     (if active c opt then SpecConstraintModel_satisfy c specM schema opt = Inr True
      else True)"

text \<open>
  The words of the skip-on-wildcard claim: a declared property is wildcarded
  "anywhere applicable" when it is the mark property and the mark is a wildcard,
  or an encoding property that some usable encoding holds as a wildcard, or a
  nested property whose parent some usable encoding has and whose child there is
  a wildcard. The properties the method reads are the mark and the encoding
  properties.
\<close>

definition wildcardedAnywhere :: "SpecQueryModel \<Rightarrow> Property \<Rightarrow> bool" where
  "wildcardedAnywhere specM p =
     (case p of
        Flat q \<Rightarrow>
          if q = ''mark'' then isWildcard (getMark specM)
          else list_ex (\<lambda>encQ. isWildcard (objProp encQ q)) (getEncodings specM)
      | EncodingNestedProp parent child \<Rightarrow>
          list_ex (\<lambda>encQ. truthy (objProp encQ parent)
                            \<and> isWildcard (getProp (objProp encQ parent) child))
            (getEncodings specM))"

definition supportedProperty :: "Property \<Rightarrow> bool" where
  "supportedProperty p = (p = Property_MARK \<or> isEncodingProperty p)"

section \<open>Examples\<close>

text \<open>
  A catalogue of two rules for the examples of the checker: the strict, cheap
  \<^verbatim>\<open>hasAllRequiredChannelsForMark\<close> and the optional, expensive
  \<^verbatim>\<open>hasAppropriateGraphicTypeForMark\<close>, as \<^const>\<open>SPEC_CONSTRAINTS\<close> registers them,
  here with a classification that calls nothing a measure or a dimension.
\<close>

definition requiredChannelsRule :: "unit SpecConstraint" where
  "requiredChannelsRule =
     \<lparr>name = ''hasAllRequiredChannelsForMark'',
      properties = [Property_CHANNEL, Property_MARK],
      allowWildcardForProperties = False, strict = True,
      satisfy = hasAllRequiredChannelsForMark\<rparr>"

definition graphicTypeRule :: "unit SpecConstraint" where
  "graphicTypeRule =
     \<lparr>name = ''hasAppropriateGraphicTypeForMark'',
      properties =
        [Property_CHANNEL, Property_MARK, Property_TYPE, Property_TIMEUNIT, Property_BIN,
         Property_AGGREGATE, Property_AUTOCOUNT],
      allowWildcardForProperties = False, strict = False,
      satisfy = hasAppropriateGraphicTypeForMark (\<lambda>e. False) (\<lambda>e. False)\<rparr>"

text \<open>
  The index of the whole catalogue for the examples, with a predicate that accepts
  everything for the rules whose predicate is a parameter.
\<close>

definition acceptAll :: "string \<Rightarrow> unit SpecConstraintChecker" where
  "acceptAll ruleName specM schema opt = Inr True"

definition exampleIndex :: "unit SpecConstraint list PropIndex" where
  "exampleIndex = SPEC_CONSTRAINTS_BY_PROPERTY (\<lambda>e. False) (\<lambda>e. False) acceptAll"

definition noWildcards :: WildcardIndex where
  "noWildcards = \<lparr>markEnumerated = False, encodingProperties = []\<rparr>"

definition modelOf :: "jsval \<Rightarrow> EncodingQuery list \<Rightarrow> SpecQueryModel" where
  "modelOf m encs =
     \<lparr>specQuery =
        \<lparr>data = None, mark = m, transform = None, encodings = encs, config = None\<rparr>,
      wildcardIndex = noWildcards\<rparr>"

text \<open>A bar whose only encoding is on \<^verbatim>\<open>size\<close>: both rules reject it.\<close>

definition barWithSize :: SpecQueryModel where
  "barWithSize =
     modelOf Mark_BAR
       [[(''channel'', JStr ''size''), (''field'', JStr ''a''),
         (''type'', JStr ''quantitative'')]]"

text \<open>The same encoding under a mark that is still a wildcard.\<close>

definition wildcardMarkWithSize :: SpecQueryModel where
  "wildcardMarkWithSize =
     modelOf SHORT_WILDCARD
       [[(''channel'', JStr ''size''), (''field'', JStr ''a''),
         (''type'', JStr ''quantitative'')]]"

text \<open>
  A chart description without data and transform, with a null scale on y and a
  count without a field on size.
\<close>

definition exampleDocument :: jsval where
  "exampleDocument =
     JObj
       [(''mark'', JStr ''point''),
        (''encoding'',
         JObj
           [(''x'', JObj [(''field'', JStr ''x''), (''type'', JStr ''quantitative'')]),
            (''y'',
             JObj [(''field'', JStr ''x''), (''type'', JStr ''quantitative''),
                   (''scale'', JNull)]),
            (''size'',
             JObj [(''aggregate'', JStr ''count''), (''type'', JStr ''quantitative'')])]),
        (''config'', JObj [])]"

text \<open>A chart description whose \<^verbatim>\<open>data\<close> is present and null.\<close>

definition nullDataDocument :: jsval where
  "nullDataDocument =
     JObj
       [(''data'', JNull),
        (''mark'', JStr ''point''),
        (''encoding'',
         JObj [(''x'', JObj [(''field'', JStr ''a''), (''type'', JStr ''quantitative'')])])]"

text \<open>A placeholder object for the channel, with a name and an enumeration.\<close>

definition wildcardChannel :: jsval where
  "wildcardChannel = JObj [(''name'', JStr ''c''), (''enum'', JArr [JStr ''x'', JStr ''y''])]"

text \<open>The encodings of the stack examples: \<^verbatim>\<open>{x: sum(Q), y: N, color: N1}\<close>.\<close>

definition stackEncodings :: "EncodingQuery list" where
  "stackEncodings =
     [[(''channel'', JStr ''x''), (''aggregate'', JStr ''sum''), (''field'', JStr ''Q''),
       (''type'', JStr ''quantitative'')],
      [(''channel'', JStr ''y''), (''field'', JStr ''N''), (''type'', JStr ''nominal'')],
      [(''channel'', JStr ''color''), (''field'', JStr ''N1''), (''type'', JStr ''nominal'')]]"

definition specWith :: "jsval \<Rightarrow> EncodingQuery list \<Rightarrow> SpecQuery" where
  "specWith m encs =
     \<lparr>data = None, mark = m, transform = None, encodings = encs, config = None\<rparr>"

section \<open>Stack detection\<close>

lemma isExplicitStack_mark:
  "isExplicitStack (specQ\<lparr>mark := m\<rparr>) = isExplicitStack specQ"
  by (simp add: isExplicitStack_def)

lemma stackEncodings_not_explicit:
  "\<not> isExplicitStack (specWith m stackEncodings)"
  by (simp add: isExplicitStack_def specWith_def stackEncodings_def isFieldQuery_def
      objProp_def isWildcard_def SHORT_WILDCARD_def)

lemma stackEncodings_flags:
  "fold stackStep stackEncodings
     \<lparr>xUsed = False, yUsed = False, xOrYAggregateOrAutoCount = False, colorUsed = False\<rparr>
   = \<lparr>xUsed = True, yUsed = True, xOrYAggregateOrAutoCount = True, colorUsed = True\<rparr>"
  by (simp add: stackEncodings_def stackStep_def stackSwitch_def isFieldQuery_def
      objProp_def Let_def)

text \<open>
  C1. The claim: \<^verbatim>\<open>isImplicitStack\<close> returns true only if some field-backed
  encoding has channel x, some has channel y and some has channel color, each an
  independent fact about the whole list. The code does not do so: because the
  \<^verbatim>\<open>switch\<close> falls through, one field-backed encoding on x with an aggregate sets
  all four flags, and \<^verbatim>\<open>isImplicitStack\<close> returns true for a query that uses
  neither y nor color.
\<close>

theorem isImplicitStack_single_x:
  "isImplicitStack
     (specWith (JStr ''bar'')
        [[(''channel'', JStr ''x''), (''aggregate'', JStr ''sum''), (''field'', JStr ''Q''),
          (''type'', JStr ''quantitative'')]])
   = True"
  by (simp add: isImplicitStack_def isExplicitStack_def specWith_def stackStep_def
      stackSwitch_def isFieldQuery_def objProp_def isWildcard_def SHORT_WILDCARD_def
      Let_def)

text \<open>
  C2, as the claim states it, fails: for the encodings
  \<^verbatim>\<open>{x: sum(Q), y: N, color: N1}\<close> and the mark \<^verbatim>\<open>point\<close>, \<^verbatim>\<open>isImplicitStack\<close>
  returns true, not false.
\<close>

theorem isImplicitStack_point_counterexample:
  "isImplicitStack (specWith (JStr ''point'') stackEncodings) \<noteq> False"
  using stackEncodings_not_explicit [of "JStr ''point''"]
  by (simp add: isImplicitStack_def specWith_def stackEncodings_flags)

text \<open>
  C2, amended. \<^verbatim>\<open>isImplicitStack\<close> never reads the mark: changing the mark of any
  query leaves its result unchanged, and for the encodings
  \<^verbatim>\<open>{x: sum(Q), y: N, color: N1}\<close> it returns true under every mark, \<^verbatim>\<open>bar\<close> and
  \<^verbatim>\<open>point\<close> alike.
\<close>

theorem isImplicitStack_ignores_mark:
  "isImplicitStack (specQ\<lparr>mark := m\<rparr>) = isImplicitStack specQ
   \<and> isImplicitStack (specWith m stackEncodings) = True"
  using stackEncodings_not_explicit [of m]
  by (simp add: isImplicitStack_def isExplicitStack_mark specWith_def stackEncodings_flags)

theorem isImplicitStack_ignores_mark_witness:
  "isImplicitStack ((specWith (JStr ''bar'') stackEncodings)\<lparr>mark := JStr ''point''\<rparr>)
     = isImplicitStack (specWith (JStr ''bar'') stackEncodings)
   \<and> isImplicitStack (specWith (JStr ''point'') stackEncodings) = True"
  using isImplicitStack_ignores_mark
    [where specQ = "specWith (JStr ''bar'') stackEncodings" and m = "JStr ''point''"]
  by simp

section \<open>The incremental checker\<close>

text \<open>
  The catalogue as registered: the names are unique, and every declared property
  is the mark or an encoding property, so \<^verbatim>\<open>hasAllRequiredPropertiesSpecific\<close>
  never throws on a constraint of the catalogue.
\<close>

lemma catalogue_names:
  "map name (SPEC_CONSTRAINTS isMeasure isDimension body) =
     [''noRepeatedChannel'', ''alwaysIncludeZeroInScaleWithBarMark'', ''autoAddCount'',
      ''channelPermittedByMarkType'', ''hasAllRequiredChannelsForMark'', ''omitAggregate'',
      ''omitAggregatePlotWithDimensionOnlyOnFacet'', ''omitAggregatePlotWithoutDimension'',
      ''omitBarLineAreaWithOcclusion'', ''omitBarTickWithSize'', ''omitBarAreaForLogScale'',
      ''omitMultipleNonPositionalChannels'',
      ''omitNonPositionalOrFacetOverPositionalChannels'', ''omitRaw'',
      ''omitRawContinuousFieldForAggregatePlot'', ''omitRawDetail'', ''omitRepeatedField'',
      ''omitVerticalDotPlot'', ''hasAppropriateGraphicTypeForMark'',
      ''omitNonLinearScaleTypeWithStack'', ''omitNonSumStack'',
      ''omitTableWithOcclusionIfAutoAddCount'']"
  by (simp add: SPEC_CONSTRAINTS_def)

lemma catalogue_distinct: "distinct (SPEC_CONSTRAINTS isMeasure isDimension body)"
proof -
  have "distinct (map name (SPEC_CONSTRAINTS isMeasure isDimension body))"
    unfolding catalogue_names by simp
  then show ?thesis by (simp add: distinct_map)
qed

lemma catalogue_supported:
  "\<forall>c \<in> set (SPEC_CONSTRAINTS isMeasure isDimension body).
     \<forall>p \<in> set (properties c). supportedProperty p"
  by (simp add: SPEC_CONSTRAINTS_def getEncodingNestedProp_def supportedProperty_def
      isEncodingTopLevelProperty_def ENCODING_TOPLEVEL_PROPS_def)

lemma checkConstraints_append_passes:
  "list_all (passes specM schema opt) pre \<Longrightarrow>
   checkConstraints (pre @ rest) specM schema opt = checkConstraints rest specM schema opt"
  by (induction pre) (auto simp: passes_def active_def)

lemma checkConstraints_all_pass:
  "list_all (passes specM schema opt) cs \<Longrightarrow> checkConstraints cs specM schema opt = Inr None"
  using checkConstraints_append_passes [of specM schema opt cs "[]"] by simp

lemma checkConstraints_result:
  "checkConstraints cs specM schema opt = Inr (Some n) \<Longrightarrow>
   \<exists>c \<in> set cs. n = ''(spec) '' @ name c \<and> active c opt
      \<and> SpecConstraintModel_satisfy c specM schema opt = Inr False"
  by (induction cs) (auto simp: active_def split: if_splits sum.splits)

lemma isWildcard_truthy: "isWildcard v \<Longrightarrow> truthy v"
  by (cases v) (auto simp: isWildcard_def SHORT_WILDCARD_def)

lemma propertySpecific_supported:
  "supportedProperty p \<Longrightarrow> propertySpecific specM p = Inr (\<not> wildcardedAnywhere specM p)"
  by (cases p)
    (auto simp: supportedProperty_def propertySpecific_def wildcardedAnywhere_def
      list_all_iff list_ex_iff dest: isWildcard_truthy)

lemma every_total:
  "\<forall>p \<in> set ps. f p = Inr (g p) \<Longrightarrow> every f ps = Inr (list_all g ps)"
  by (induction ps) auto

lemma hasAllRequiredPropertiesSpecific_supported:
  "\<forall>p \<in> set (properties c). supportedProperty p \<Longrightarrow>
   hasAllRequiredPropertiesSpecific c specM
     = Inr (list_all (\<lambda>p. \<not> wildcardedAnywhere specM p) (properties c))"
  unfolding hasAllRequiredPropertiesSpecific_def
  by (rule every_total) (simp add: propertySpecific_supported)

lemma satisfy_skips:
  assumes "\<not> allowWildcardForProperties c"
    and "\<forall>p \<in> set (properties c). supportedProperty p"
    and "\<exists>p \<in> set (properties c). wildcardedAnywhere specM p"
  shows "SpecConstraintModel_satisfy c specM schema opt = Inr True"
  using assms
  by (auto simp: SpecConstraintModel_satisfy_def hasAllRequiredPropertiesSpecific_supported
      list_all_iff)

lemma lookup_two_rules_mark:
  "lookupConstraints (buildIndex [requiredChannelsRule, graphicTypeRule]) Property_MARK
     = [requiredChannelsRule, graphicTypeRule]"
  by (simp add: lookupConstraints_def buildIndex_def indexProperty_def PropIndex_get_def
      PropIndex_set_def requiredChannelsRule_def graphicTypeRule_def)

text \<open>
  C3. For a constraint whose \<^verbatim>\<open>allowWildcardForProperties\<close> flag is false and that
  declares only the mark and encoding properties (flat or nested), as every
  constraint of the catalogue does: if one of its declared properties is
  wildcarded anywhere applicable (the mark; an encoding property, or the child of
  an existing parent, in an encoding that \<^verbatim>\<open>getEncodings\<close> returns), then \<^verbatim>\<open>satisfy\<close>
  returns true whatever its predicate is, one that throws included, so the
  predicate is not consulted; and \<^verbatim>\<open>checkSpec\<close>, the names under the property being
  unique, does not return the name of that constraint.
\<close>

theorem checkSpec_skip_on_wildcard:
  assumes "\<not> allowWildcardForProperties c"
    and "\<forall>p \<in> set (properties c). supportedProperty p"
    and "\<exists>p \<in> set (properties c). wildcardedAnywhere specM p"
    and "\<forall>d \<in> set (lookupConstraints index pr). name d = name c \<longrightarrow> d = c"
  shows "(\<forall>f. SpecConstraintModel_satisfy (c\<lparr>satisfy := f\<rparr>) specM schema opt = Inr True)
         \<and> checkSpec index pr w specM schema opt \<noteq> Inr (Some (''(spec) '' @ name c))"
proof
  show "\<forall>f. SpecConstraintModel_satisfy (c\<lparr>satisfy := f\<rparr>) specM schema opt = Inr True"
    using assms(1-3) by (intro allI satisfy_skips) simp_all
next
  have sat: "SpecConstraintModel_satisfy c specM schema opt = Inr True"
    using assms(1-3) by (rule satisfy_skips)
  show "checkSpec index pr w specM schema opt \<noteq> Inr (Some (''(spec) '' @ name c))"
  proof
    assume "checkSpec index pr w specM schema opt = Inr (Some (''(spec) '' @ name c))"
    then obtain d where d: "d \<in> set (lookupConstraints index pr)"
        "''(spec) '' @ name c = ''(spec) '' @ name d"
        "SpecConstraintModel_satisfy d specM schema opt = Inr False"
      unfolding checkSpec_def Let_def by (blast dest: checkConstraints_result)
    from d(2) have "name d = name c" by simp
    with d(1) assms(4) have "d = c" by blast
    with d(3) sat show False by simp
  qed
qed

theorem checkSpec_skip_on_wildcard_witness:
  "SpecConstraintModel_satisfy requiredChannelsRule wildcardMarkWithSize () [] = Inr True
   \<and> satisfy requiredChannelsRule wildcardMarkWithSize () []
       = Inl (NotImplementedForMark SHORT_WILDCARD)
   \<and> checkSpec (buildIndex [requiredChannelsRule, graphicTypeRule]) Property_MARK
        SHORT_WILDCARD wildcardMarkWithSize () []
       \<noteq> Inr (Some (''(spec) '' @ name requiredChannelsRule))"
proof -
  have 1: "\<not> allowWildcardForProperties requiredChannelsRule"
    by (simp add: requiredChannelsRule_def)
  have 2: "\<forall>p \<in> set (properties requiredChannelsRule). supportedProperty p"
    by (simp add: requiredChannelsRule_def supportedProperty_def
        isEncodingTopLevelProperty_def ENCODING_TOPLEVEL_PROPS_def)
  have 3: "\<exists>p \<in> set (properties requiredChannelsRule).
             wildcardedAnywhere wildcardMarkWithSize p"
    by (simp add: requiredChannelsRule_def wildcardedAnywhere_def wildcardMarkWithSize_def
        modelOf_def getMark_def isWildcard_def)
  have 4: "\<forall>d \<in> set (lookupConstraints (buildIndex [requiredChannelsRule, graphicTypeRule])
                        Property_MARK).
             name d = name requiredChannelsRule \<longrightarrow> d = requiredChannelsRule"
    by (simp add: lookup_two_rules_mark) (simp add: requiredChannelsRule_def graphicTypeRule_def)
  have 5: "satisfy requiredChannelsRule wildcardMarkWithSize () []
             = Inl (NotImplementedForMark SHORT_WILDCARD)"
    by (simp add: requiredChannelsRule_def hasAllRequiredChannelsForMark_def
        wildcardMarkWithSize_def modelOf_def getMark_def SHORT_WILDCARD_def)
  note inst = checkSpec_skip_on_wildcard [OF 1 2 3 4, of "()" "[]" SHORT_WILDCARD]
  from inst have "SpecConstraintModel_satisfy
        (requiredChannelsRule\<lparr>satisfy := satisfy requiredChannelsRule\<rparr>)
        wildcardMarkWithSize () [] = Inr True"
    by blast
  then have 6: "SpecConstraintModel_satisfy requiredChannelsRule wildcardMarkWithSize () []
        = Inr True"
    by simp
  from inst 5 6 show ?thesis by blast
qed

lemma barWithSize_required_fails:
  "SpecConstraintModel_satisfy requiredChannelsRule barWithSize () opt = Inr False"
  by (simp add: SpecConstraintModel_satisfy_def hasAllRequiredPropertiesSpecific_def
      requiredChannelsRule_def propertySpecific_def barWithSize_def modelOf_def getMark_def
      getEncodings_def isDisabledAutoCountQuery_def isAutoCountQuery_def objProp_def
      isWildcard_def SHORT_WILDCARD_def isEncodingTopLevelProperty_def
      ENCODING_TOPLEVEL_PROPS_def hasAllRequiredChannelsForMark_def channelUsed_def)

lemma barWithSize_graphic_fails:
  "SpecConstraintModel_satisfy graphicTypeRule barWithSize () opt = Inr False"
  by (simp add: SpecConstraintModel_satisfy_def hasAllRequiredPropertiesSpecific_def
      graphicTypeRule_def propertySpecific_def barWithSize_def modelOf_def getMark_def
      getEncodings_def isDisabledAutoCountQuery_def isAutoCountQuery_def objProp_def
      isWildcard_def SHORT_WILDCARD_def isEncodingTopLevelProperty_def
      ENCODING_TOPLEVEL_PROPS_def hasAppropriateGraphicTypeForMark_def channelUsed_def
      getEncodingQueryByChannel_def)

lemma lookup_graphic_rule_mark:
  "lookupConstraints (buildIndex [graphicTypeRule]) Property_MARK = [graphicTypeRule]"
  by (simp add: lookupConstraints_def buildIndex_def indexProperty_def PropIndex_get_def
      PropIndex_set_def graphicTypeRule_def)

text \<open>
  C4. Let the loop of \<^verbatim>\<open>checkSpec\<close> reach a constraint, every constraint before
  it having passed. If the constraint is strict, its \<^verbatim>\<open>satisfy\<close> method is
  evaluated and decides the result, whatever the options map holds under its
  name (no entry, a falsy entry); a non-strict constraint is evaluated in the
  same way when the options map has a truthy entry under its name, and is
  skipped otherwise: the result is that of the constraints after it.
\<close>

theorem checkSpec_activation:
  assumes "lookupConstraints index p = pre @ c # post"
    and "list_all (passes specM schema opt) pre"
  shows "(strict c \<or> truthy (objProp opt (name c)) \<longrightarrow>
            checkSpec index p w specM schema opt =
              (case SpecConstraintModel_satisfy c specM schema opt of
                 Inl e \<Rightarrow> Inl e
               | Inr sat \<Rightarrow>
                   if sat then checkConstraints post specM schema opt
                   else Inr (Some (''(spec) '' @ name c))))
         \<and> (\<not> strict c \<and> \<not> truthy (objProp opt (name c)) \<longrightarrow>
              checkSpec index p w specM schema opt = checkConstraints post specM schema opt)"
  using assms
  by (auto simp: checkSpec_def checkConstraints_append_passes split: sum.splits)

theorem checkSpec_activation_witness:
  "checkSpec (buildIndex [requiredChannelsRule, graphicTypeRule]) Property_MARK JNull
      barWithSize () []
     = Inr (Some ''(spec) hasAllRequiredChannelsForMark'')
   \<and> checkSpec (buildIndex [graphicTypeRule]) Property_MARK JNull barWithSize () [] = Inr None
   \<and> checkSpec (buildIndex [graphicTypeRule]) Property_MARK JNull barWithSize ()
        [(''hasAppropriateGraphicTypeForMark'', JBool False)] = Inr None
   \<and> checkSpec (buildIndex [graphicTypeRule]) Property_MARK JNull barWithSize ()
        [(''hasAppropriateGraphicTypeForMark'', JBool True)]
       = Inr (Some ''(spec) hasAppropriateGraphicTypeForMark'')"
proof -
  have two: "lookupConstraints (buildIndex [requiredChannelsRule, graphicTypeRule])
      Property_MARK = [] @ requiredChannelsRule # [graphicTypeRule]"
    by (simp add: lookup_two_rules_mark)
  have one: "lookupConstraints (buildIndex [graphicTypeRule]) Property_MARK
      = [] @ graphicTypeRule # []"
    by (simp add: lookup_graphic_rule_mark)
  have nil: "list_all (passes barWithSize () opt) []" for opt
    by simp
  have a: "checkSpec (buildIndex [requiredChannelsRule, graphicTypeRule]) Property_MARK JNull
      barWithSize () [] = Inr (Some ''(spec) hasAllRequiredChannelsForMark'')"
    using checkSpec_activation [OF two nil, of "[]" JNull]
    by (simp add: barWithSize_required_fails) (simp add: requiredChannelsRule_def)
  have b: "checkSpec (buildIndex [graphicTypeRule]) Property_MARK JNull barWithSize () []
      = Inr None"
    using checkSpec_activation [OF one nil, of "[]" JNull]
    by (simp add: graphicTypeRule_def objProp_def)
  have c: "checkSpec (buildIndex [graphicTypeRule]) Property_MARK JNull barWithSize ()
        [(''hasAppropriateGraphicTypeForMark'', JBool False)] = Inr None"
    using checkSpec_activation
      [OF one nil, of "[(''hasAppropriateGraphicTypeForMark'', JBool False)]" JNull]
    by (simp add: graphicTypeRule_def objProp_def)
  have d: "checkSpec (buildIndex [graphicTypeRule]) Property_MARK JNull barWithSize ()
        [(''hasAppropriateGraphicTypeForMark'', JBool True)]
       = Inr (Some ''(spec) hasAppropriateGraphicTypeForMark'')"
    using checkSpec_activation
      [OF one nil, of "[(''hasAppropriateGraphicTypeForMark'', JBool True)]" JNull]
    by (simp add: barWithSize_graphic_fails) (simp add: graphicTypeRule_def objProp_def)
  from a b c d show ?thesis by simp
qed

text \<open>
  C5. \<^verbatim>\<open>checkSpec\<close> goes through the constraints indexed under the property in
  index order. At the first active constraint whose \<^verbatim>\<open>satisfy\<close> returns false,
  every constraint before it having passed, it returns \<^verbatim>\<open>'(spec) '\<close> followed by
  that constraint's name, and the result is the one of the list cut after that
  constraint: no later constraint is evaluated. When every constraint passes, or
  the index has no entry for the property, it returns \<^verbatim>\<open>null\<close>.
\<close>

theorem checkSpec_first_violation:
  "(lookupConstraints index p = pre @ c # post
      \<and> list_all (passes specM schema opt) pre
      \<and> active c opt
      \<and> SpecConstraintModel_satisfy c specM schema opt = Inr False
    \<longrightarrow> checkSpec index p w specM schema opt = Inr (Some (''(spec) '' @ name c))
        \<and> checkSpec index p w specM schema opt
            = checkConstraints (pre @ [c]) specM schema opt)
   \<and> (list_all (passes specM schema opt) (lookupConstraints index p)
      \<longrightarrow> checkSpec index p w specM schema opt = Inr None)
   \<and> (PropIndex_get index p = None
      \<longrightarrow> checkSpec index p w specM schema opt = Inr None)"
proof (intro conjI impI)
  assume h: "lookupConstraints index p = pre @ c # post
      \<and> list_all (passes specM schema opt) pre
      \<and> active c opt
      \<and> SpecConstraintModel_satisfy c specM schema opt = Inr False"
  then have v: "checkConstraints (c # rest) specM schema opt
      = Inr (Some (''(spec) '' @ name c))" for rest
    by (auto simp: active_def)
  from h have "checkSpec index p w specM schema opt
      = checkConstraints (c # post) specM schema opt"
    by (simp only: checkSpec_def Let_def checkConstraints_append_passes)
  then show r: "checkSpec index p w specM schema opt = Inr (Some (''(spec) '' @ name c))"
    by (simp only: v)
  from h have "checkConstraints (pre @ [c]) specM schema opt
      = checkConstraints [c] specM schema opt"
    by (simp only: checkConstraints_append_passes)
  then show "checkSpec index p w specM schema opt
      = checkConstraints (pre @ [c]) specM schema opt"
    by (simp only: r v)
next
  assume "list_all (passes specM schema opt) (lookupConstraints index p)"
  then show "checkSpec index p w specM schema opt = Inr None"
    by (simp add: checkSpec_def checkConstraints_all_pass)
next
  assume "PropIndex_get index p = None"
  then show "checkSpec index p w specM schema opt = Inr None"
    by (simp add: checkSpec_def lookupConstraints_def)
qed

theorem checkSpec_first_violation_witness:
  "checkSpec (buildIndex [requiredChannelsRule, graphicTypeRule]) Property_MARK JNull
      barWithSize () [(''hasAppropriateGraphicTypeForMark'', JBool True)]
     = Inr (Some ''(spec) hasAllRequiredChannelsForMark'')
   \<and> SpecConstraintModel_satisfy graphicTypeRule barWithSize ()
        [(''hasAppropriateGraphicTypeForMark'', JBool True)] = Inr False
   \<and> checkSpec (buildIndex [requiredChannelsRule, graphicTypeRule]) Property_FIELD JNull
        barWithSize () [(''hasAppropriateGraphicTypeForMark'', JBool True)] = Inr None"
proof -
  let ?opt = "[(''hasAppropriateGraphicTypeForMark'', JBool True)]"
  let ?index = "buildIndex [requiredChannelsRule, graphicTypeRule]"
  have two: "lookupConstraints ?index Property_MARK
      = [] @ requiredChannelsRule # [graphicTypeRule]"
    by (simp add: lookup_two_rules_mark)
  have act: "active requiredChannelsRule ?opt"
    by (simp add: active_def requiredChannelsRule_def)
  have none: "PropIndex_get ?index Property_FIELD = None"
    by (simp add: buildIndex_def indexProperty_def PropIndex_get_def
        PropIndex_set_def requiredChannelsRule_def graphicTypeRule_def)
  note inst = checkSpec_first_violation
    [where index = ?index and pre = "[]" and c = requiredChannelsRule
       and post = "[graphicTypeRule]" and specM = barWithSize and schema = "()"
       and opt = ?opt and w = JNull]
  have a: "checkSpec ?index Property_MARK JNull barWithSize () ?opt
      = Inr (Some ''(spec) hasAllRequiredChannelsForMark'')"
    using inst [of Property_MARK] two act barWithSize_required_fails [of ?opt]
    by (simp add: requiredChannelsRule_def)
  have b: "checkSpec ?index Property_FIELD JNull barWithSize () ?opt = Inr None"
    using inst [of Property_FIELD] none by simp
  from a b barWithSize_graphic_fails [of ?opt] show ?thesis by simp
qed

section \<open>The property index\<close>

lemma indexProperty_apply:
  "indexProperty c p index k =
     (if k = toKey p then Some (entriesAt index k @ [c]) else index k)"
  by (simp add: indexProperty_def PropIndex_get_def PropIndex_set_def entriesAt_def Let_def)

lemma fold_indexProperty:
  "distinct (map toKey ps) \<Longrightarrow>
   fold (indexProperty c) ps index k =
     (if k \<in> toKey ` set ps then Some (entriesAt index k @ [c]) else index k)"
proof (induction ps arbitrary: index)
  case Nil
  then show ?case by simp
next
  case (Cons p ps)
  then show ?case
    by (auto simp: indexProperty_apply entriesAt_def)
qed

lemma fold_catalogue:
  "\<forall>c \<in> set cs. distinct (map toKey (properties c)) \<Longrightarrow>
   fold (\<lambda>c index. fold (indexProperty c) (properties c) index) cs index k =
     (if \<exists>c \<in> set cs. k \<in> toKey ` set (properties c)
      then Some (entriesAt index k @ filter (\<lambda>c. k \<in> toKey ` set (properties c)) cs)
      else index k)"
proof (induction cs arbitrary: index)
  case Nil
  then show ?case by simp
next
  case (Cons c cs)
  then show ?case
    by (auto simp: fold_indexProperty entriesAt_def)
qed

lemma buildIndex_lookup:
  assumes "\<forall>c \<in> set cs. distinct (map toKey (properties c))"
  shows "lookupConstraints (buildIndex cs) p
           = filter (\<lambda>c. toKey p \<in> toKey ` set (properties c)) cs"
    and "PropIndex_get (buildIndex cs) p = None
           \<longleftrightarrow> (\<forall>c \<in> set cs. toKey p \<notin> toKey ` set (properties c))"
  using assms
  by (auto simp: lookupConstraints_def PropIndex_get_def buildIndex_def fold_catalogue
      entriesAt_def filter_empty_conv)

lemma count_list_filter_distinct:
  "distinct cs \<Longrightarrow> c \<in> set cs \<Longrightarrow> P c \<Longrightarrow> count_list (filter P cs) c = 1"
  by (induction cs) (auto simp: count_list_0_iff)

lemma catalogue_keys_distinct:
  "\<forall>c \<in> set (SPEC_CONSTRAINTS isMeasure isDimension body).
     distinct (map toKey (properties c))"
  by (simp add: SPEC_CONSTRAINTS_def getEncodingNestedProp_def)

text \<open>
  C6. In the property index built from the catalogue, every registered constraint
  occurs exactly once under every property it declares; the entry of a property
  is the catalogue filtered to the constraints that declare it (its key), so it
  keeps the registration order; and a property under which no constraint is
  indexed has no entry, its lookup is the empty list, and \<^verbatim>\<open>checkSpec\<close> on it
  returns \<^verbatim>\<open>null\<close>.
\<close>

theorem property_index_complete:
  "(\<forall>c \<in> set (SPEC_CONSTRAINTS isMeasure isDimension body).
      \<forall>p \<in> set (properties c).
        count_list
          (lookupConstraints (SPEC_CONSTRAINTS_BY_PROPERTY isMeasure isDimension body) p) c
        = 1)
   \<and> (\<forall>p. lookupConstraints (SPEC_CONSTRAINTS_BY_PROPERTY isMeasure isDimension body) p
            = filter (\<lambda>c. toKey p \<in> toKey ` set (properties c))
                (SPEC_CONSTRAINTS isMeasure isDimension body))
   \<and> (\<forall>p. (\<forall>c \<in> set (SPEC_CONSTRAINTS isMeasure isDimension body).
               toKey p \<notin> toKey ` set (properties c))
          \<longrightarrow> PropIndex_get (SPEC_CONSTRAINTS_BY_PROPERTY isMeasure isDimension body) p = None
              \<and> lookupConstraints (SPEC_CONSTRAINTS_BY_PROPERTY isMeasure isDimension body) p
                  = []
              \<and> checkSpec (SPEC_CONSTRAINTS_BY_PROPERTY isMeasure isDimension body) p w
                    specM schema opt
                  = Inr None)"
proof -
  let ?cat = "SPEC_CONSTRAINTS isMeasure isDimension body"
  let ?idx = "SPEC_CONSTRAINTS_BY_PROPERTY isMeasure isDimension body"
  have keys: "\<forall>c \<in> set ?cat. distinct (map toKey (properties c))"
    by (rule catalogue_keys_distinct)
  have look: "lookupConstraints ?idx p
      = filter (\<lambda>c. toKey p \<in> toKey ` set (properties c)) ?cat" for p
    unfolding SPEC_CONSTRAINTS_BY_PROPERTY_def by (rule buildIndex_lookup(1) [OF keys])
  have absent: "PropIndex_get ?idx p = None
      \<longleftrightarrow> (\<forall>c \<in> set ?cat. toKey p \<notin> toKey ` set (properties c))" for p
    unfolding SPEC_CONSTRAINTS_BY_PROPERTY_def by (rule buildIndex_lookup(2) [OF keys])
  have once: "count_list (lookupConstraints ?idx p) c = 1"
    if "c \<in> set ?cat" and "p \<in> set (properties c)" for c p
    unfolding look using catalogue_distinct that
    by (intro count_list_filter_distinct) auto
  have empty: "lookupConstraints ?idx p = [] \<and> checkSpec ?idx p w specM schema opt = Inr None"
    if "PropIndex_get ?idx p = None" for p
    using that by (simp add: checkSpec_def lookupConstraints_def)
  from look absent once empty show ?thesis by blast
qed

theorem property_index_complete_witness:
  "map name (lookupConstraints exampleIndex Property_MARK)
     = [''alwaysIncludeZeroInScaleWithBarMark'', ''channelPermittedByMarkType'',
        ''hasAllRequiredChannelsForMark'', ''omitBarLineAreaWithOcclusion'',
        ''omitBarTickWithSize'', ''omitBarAreaForLogScale'',
        ''hasAppropriateGraphicTypeForMark'', ''omitNonLinearScaleTypeWithStack'',
        ''omitNonSumStack'']
   \<and> map name (lookupConstraints exampleIndex Property_FIELD) = [''omitRepeatedField'']
   \<and> lookupConstraints exampleIndex (Flat ''stack'') = []
   \<and> checkSpec exampleIndex (Flat ''stack'') JNull barWithSize () [] = Inr None"
proof -
  note inst = property_index_complete
    [where isMeasure = "\<lambda>e. False" and isDimension = "\<lambda>e. False" and body = acceptAll
       and w = JNull and specM = barWithSize and schema = "()" and opt = "[]"]
  from inst have look: "lookupConstraints exampleIndex p
      = filter (\<lambda>c. toKey p \<in> toKey ` set (properties c))
          (SPEC_CONSTRAINTS (\<lambda>e. False) (\<lambda>e. False) acceptAll)" for p
    unfolding exampleIndex_def by blast
  have a: "map name (lookupConstraints exampleIndex Property_MARK)
      = [''alwaysIncludeZeroInScaleWithBarMark'', ''channelPermittedByMarkType'',
        ''hasAllRequiredChannelsForMark'', ''omitBarLineAreaWithOcclusion'',
        ''omitBarTickWithSize'', ''omitBarAreaForLogScale'',
        ''hasAppropriateGraphicTypeForMark'', ''omitNonLinearScaleTypeWithStack'',
        ''omitNonSumStack'']"
    unfolding look by (simp add: SPEC_CONSTRAINTS_def getEncodingNestedProp_def)
  have b: "map name (lookupConstraints exampleIndex Property_FIELD) = [''omitRepeatedField'']"
    unfolding look by (simp add: SPEC_CONSTRAINTS_def getEncodingNestedProp_def)
  have none: "\<forall>c \<in> set (SPEC_CONSTRAINTS (\<lambda>e. False) (\<lambda>e. False) acceptAll).
      toKey (Flat ''stack'') \<notin> toKey ` set (properties c)"
    by (simp add: SPEC_CONSTRAINTS_def getEncodingNestedProp_def)
  from inst none have c: "lookupConstraints exampleIndex (Flat ''stack'') = []
      \<and> checkSpec exampleIndex (Flat ''stack'') JNull barWithSize () [] = Inr None"
    unfolding exampleIndex_def by blast
  from a b c show ?thesis by simp
qed

section \<open>Required channels and unrecognized marks\<close>

text \<open>
  A channel is used when an encoding that is not a disabled auto-count has exactly
  that channel; a channel that is still a wildcard is not used.
\<close>

lemma channelUsed_iff:
  "channelUsed specM ch \<longleftrightarrow>
     (\<exists>encQ \<in> set (encodings (specQuery specM)).
        \<not> isDisabledAutoCountQuery encQ \<and> objProp encQ ''channel'' = ch)"
  by (auto simp: channelUsed_def getEncodings_def list_ex_iff)

text \<open>
  C8. \<^verbatim>\<open>hasAllRequiredChannelsForMark\<close> on a concrete mark: for \<^verbatim>\<open>area\<close> and \<^verbatim>\<open>line\<close>
  both x and y must be used; for \<^verbatim>\<open>text\<close> the text channel must be used; for
  \<^verbatim>\<open>bar\<close>, \<^verbatim>\<open>circle\<close>, \<^verbatim>\<open>square\<close>, \<^verbatim>\<open>tick\<close>, \<^verbatim>\<open>rule\<close> and \<^verbatim>\<open>rect\<close> x or y must be
  used; for \<^verbatim>\<open>point\<close> x or y must be used when the wildcard index has the channel
  property enumerated somewhere, and the rule is satisfied regardless when it
  has not.
\<close>

theorem hasAllRequiredChannelsForMark_per_mark:
  "(getMark specM = Mark_AREA \<or> getMark specM = Mark_LINE \<longrightarrow>
      hasAllRequiredChannelsForMark specM schema opt
        = Inr (channelUsed specM Channel_X \<and> channelUsed specM Channel_Y))
   \<and> (getMark specM = Mark_TEXT \<longrightarrow>
        hasAllRequiredChannelsForMark specM schema opt = Inr (channelUsed specM Channel_TEXT))
   \<and> (getMark specM \<in> {Mark_BAR, Mark_CIRCLE, Mark_SQUARE, Mark_TICK, Mark_RULE, Mark_RECT}
        \<longrightarrow> hasAllRequiredChannelsForMark specM schema opt
              = Inr (channelUsed specM Channel_X \<or> channelUsed specM Channel_Y))
   \<and> (getMark specM = Mark_POINT \<longrightarrow>
        hasAllRequiredChannelsForMark specM schema opt
          = Inr (if hasProperty (wildcardIndex specM) Property_CHANNEL
                 then channelUsed specM Channel_X \<or> channelUsed specM Channel_Y
                 else True))"
  by (auto simp: hasAllRequiredChannelsForMark_def Let_def)

theorem hasAllRequiredChannelsForMark_per_mark_witness:
  "hasAllRequiredChannelsForMark
      (modelOf Mark_TEXT [[(''channel'', JStr ''x''), (''field'', JStr ''a'')]]) () []
     = Inr False
   \<and> hasAllRequiredChannelsForMark
       (modelOf Mark_TEXT
          [[(''channel'', JStr ''x''), (''field'', JStr ''a'')],
           [(''channel'', JStr ''text''), (''field'', JStr ''b'')]]) () []
       = Inr True
   \<and> hasAllRequiredChannelsForMark
       (modelOf Mark_AREA [[(''channel'', JStr ''x''), (''field'', JStr ''a'')]]) () []
       = Inr False
   \<and> hasAllRequiredChannelsForMark
       (modelOf Mark_BAR [[(''channel'', JStr ''x''), (''field'', JStr ''a'')]]) () []
       = Inr True
   \<and> hasAllRequiredChannelsForMark
       (modelOf Mark_POINT [[(''channel'', JStr ''size''), (''field'', JStr ''a'')]]) () []
       = Inr True
   \<and> hasAllRequiredChannelsForMark
       ((modelOf Mark_POINT [[(''channel'', JStr ''size''), (''field'', JStr ''a'')]])
          \<lparr>wildcardIndex :=
             \<lparr>markEnumerated = False, encodingProperties = [(0, ''channel'')]\<rparr>\<rparr>) () []
       = Inr False"
proof -
  let ?x = "[(''channel'', JStr ''x''), (''field'', JStr ''a'')]"
  let ?t = "[(''channel'', JStr ''text''), (''field'', JStr ''b'')]"
  let ?s = "[(''channel'', JStr ''size''), (''field'', JStr ''a'')]"
  let ?wi = "\<lparr>markEnumerated = False, encodingProperties = [(0::nat, ''channel'')]\<rparr>"
  note defs = modelOf_def getMark_def channelUsed_def getEncodings_def
    isDisabledAutoCountQuery_def isAutoCountQuery_def objProp_def hasProperty_def
    noWildcards_def
  have a: "hasAllRequiredChannelsForMark (modelOf Mark_TEXT [?x]) () [] = Inr False"
    using hasAllRequiredChannelsForMark_per_mark
      [where specM = "modelOf Mark_TEXT [?x]" and schema = "()" and opt = "[]"]
    by (simp add: defs)
  have b: "hasAllRequiredChannelsForMark (modelOf Mark_TEXT [?x, ?t]) () [] = Inr True"
    using hasAllRequiredChannelsForMark_per_mark
      [where specM = "modelOf Mark_TEXT [?x, ?t]" and schema = "()" and opt = "[]"]
    by (simp add: defs)
  have c: "hasAllRequiredChannelsForMark (modelOf Mark_AREA [?x]) () [] = Inr False"
    using hasAllRequiredChannelsForMark_per_mark
      [where specM = "modelOf Mark_AREA [?x]" and schema = "()" and opt = "[]"]
    by (simp add: defs)
  have d: "hasAllRequiredChannelsForMark (modelOf Mark_BAR [?x]) () [] = Inr True"
    using hasAllRequiredChannelsForMark_per_mark
      [where specM = "modelOf Mark_BAR [?x]" and schema = "()" and opt = "[]"]
    by (simp add: defs)
  have e: "hasAllRequiredChannelsForMark (modelOf Mark_POINT [?s]) () [] = Inr True"
    using hasAllRequiredChannelsForMark_per_mark
      [where specM = "modelOf Mark_POINT [?s]" and schema = "()" and opt = "[]"]
    by (simp add: defs)
  have f: "hasAllRequiredChannelsForMark
      ((modelOf Mark_POINT [?s])\<lparr>wildcardIndex := ?wi\<rparr>) () [] = Inr False"
    using hasAllRequiredChannelsForMark_per_mark
      [where specM = "(modelOf Mark_POINT [?s])\<lparr>wildcardIndex := ?wi\<rparr>"
         and schema = "()" and opt = "[]"]
    by (simp add: defs)
  from a b c d e f show ?thesis by simp
qed

text \<open>
  C9. When the mark is none of the ten marks the switches handle, both
  \<^verbatim>\<open>hasAllRequiredChannelsForMark\<close> and \<^verbatim>\<open>hasAppropriateGraphicTypeForMark\<close> throw
  the error that carries the mark; neither returns true or false.
\<close>

theorem unrecognized_mark_throws:
  assumes "getMark specM \<notin> {Mark_AREA, Mark_LINE, Mark_TEXT, Mark_BAR, Mark_CIRCLE,
             Mark_SQUARE, Mark_TICK, Mark_RULE, Mark_RECT, Mark_POINT}"
  shows "hasAllRequiredChannelsForMark specM schema opt
           = Inl (NotImplementedForMark (getMark specM))
         \<and> hasAppropriateGraphicTypeForMark isMeasure isDimension specM schema opt
           = Inl (NotImplementedForMark (getMark specM))"
  using assms
  by (simp add: hasAllRequiredChannelsForMark_def hasAppropriateGraphicTypeForMark_def
      Let_def)

theorem unrecognized_mark_throws_witness:
  "hasAllRequiredChannelsForMark
      (modelOf (JStr ''geoshape'') [[(''channel'', JStr ''x''), (''field'', JStr ''a'')]])
      () []
     = Inl (NotImplementedForMark (JStr ''geoshape''))
   \<and> hasAppropriateGraphicTypeForMark (\<lambda>e. False) (\<lambda>e. False)
       (modelOf (JStr ''geoshape'') [[(''channel'', JStr ''x''), (''field'', JStr ''a'')]])
       () []
     = Inl (NotImplementedForMark (JStr ''geoshape''))"
  using unrecognized_mark_throws
    [where specM = "modelOf (JStr ''geoshape'')
                      [[(''channel'', JStr ''x''), (''field'', JStr ''a'')]]"
       and schema = "()" and opt = "[]" and isMeasure = "\<lambda>e. False"
       and isDimension = "\<lambda>e. False"]
  by (simp add: modelOf_def getMark_def)

section \<open>Normalizing a chart description\<close>

lemma objProp_update:
  "objProp (AList.update k v al) p = (if p = k then v else objProp al p)"
  by (simp add: objProp_def update_conv')

lemma getProp_absent: "p \<notin> set (keys v) \<Longrightarrow> getProp v p = JUndefined"
  by (simp add: getProp_def objProp_def keys_def map_of_eq_None_iff [THEN iffD2])

lemma copyProp_objProp:
  "objProp (copyProp channelDef k encQ) p =
     (if p = k \<and> isEncodingTopLevelProperty k \<and> getProp channelDef k \<noteq> JUndefined
      then normalizeValue k (getProp channelDef k)
      else objProp encQ p)"
  by (auto simp: copyProp_def objProp_update normalizeValue_def contains_def)

lemma fold_copyProp:
  "objProp (fold (copyProp channelDef) ks encQ) p =
     (if p \<in> set ks \<and> isEncodingTopLevelProperty p \<and> getProp channelDef p \<noteq> JUndefined
      then normalizeValue p (getProp channelDef p)
      else objProp encQ p)"
  by (induction ks arbitrary: encQ) (auto simp: copyProp_objProp)

lemma copied_objProp:
  "objProp (fold (copyProp channelDef) (keys channelDef) [(''channel'', JStr ch)]) p =
     (if isEncodingTopLevelProperty p \<and> getProp channelDef p \<noteq> JUndefined
      then normalizeValue p (getProp channelDef p)
      else if p = ''channel'' then JStr ch else JUndefined)"
proof -
  have base: "objProp [(''channel'', JStr ch)] p = (if p = ''channel'' then JStr ch else JUndefined)"
    by (simp add: objProp_def)
  show ?thesis
    unfolding fold_copyProp base using getProp_absent [of p channelDef] by auto
qed

lemma isTop_simps:
  "isEncodingTopLevelProperty ''aggregate''" "isEncodingTopLevelProperty ''field''"
  "isEncodingTopLevelProperty ''channel''"
  by (simp_all add: isEncodingTopLevelProperty_def ENCODING_TOPLEVEL_PROPS_def)

lemma normalizeValue_undefined: "normalizeValue p JUndefined = JUndefined"
  by (simp add: normalizeValue_def)

lemma copied_aggregate:
  "objProp (fold (copyProp channelDef) (keys channelDef) [(''channel'', JStr ch)]) ''aggregate''
     = getProp channelDef ''aggregate''"
  by (simp add: copied_objProp isTop_simps normalizeValue_def)

lemma copied_field:
  "objProp (fold (copyProp channelDef) (keys channelDef) [(''channel'', JStr ch)]) ''field''
     = getProp channelDef ''field''"
  by (simp add: copied_objProp isTop_simps normalizeValue_def)

lemma toEncodingQuery_objProp:
  "objProp (toEncodingQuery encoding ch) p =
     (if p = ''channel'' then
        (if getProp (getProp encoding ch) ''channel'' \<noteq> JUndefined
         then getProp (getProp encoding ch) ''channel'' else JStr ch)
      else expectedProp (getProp encoding ch) p)"
  by (auto simp: toEncodingQuery_def Let_def objProp_update copied_objProp copied_aggregate
      copied_field isFieldQuery_def expectedProp_def countWithoutField_def isTop_simps
      normalizeValue_def)

lemma topLevel_present:
  "(if truthy (getProp spec k) then Some (getProp spec k) else None)
     = (if k \<in> set (keys spec) \<and> truthy (getProp spec k) then Some (getProp spec k)
        else None)"
  by (cases "k \<in> set (keys spec)") (simp_all add: getProp_absent)

text \<open>
  C7, as the claim states it, fails: \<^verbatim>\<open>fromSpec\<close> tests \<^verbatim>\<open>spec.data\<close> for truthiness,
  not for presence. In the description \<^verbatim>\<open>{data: null, mark: 'point', encoding: {x:
  {field: 'a', type: 'quantitative'}}}\<close> the key \<^verbatim>\<open>data\<close> is present, and the result
  has no \<^verbatim>\<open>data\<close>.
\<close>

theorem fromSpec_null_data_counterexample:
  "''data'' \<in> set (keys nullDataDocument) \<and> data (fromSpec nullDataDocument) = None"
  by (simp add: nullDataDocument_def keys_def fromSpec_def getProp_def objProp_def)

text \<open>
  C7, amended. \<^verbatim>\<open>fromSpec\<close> gives one encoding query per channel of \<^verbatim>\<open>encoding\<close>, in
  order. The query of a channel holds that channel under \<^verbatim>\<open>channel\<close> (or the
  \<^verbatim>\<open>channel\<close> of the channel definition, copied like any top-level property, when
  the definition has one). Under every other property it holds nothing when the
  property is not a top-level encoding property, \<^verbatim>\<open>'*'\<close> for the field of a count
  without a field, and otherwise the value of the channel definition, with a null
  \<^verbatim>\<open>bin\<close>, \<^verbatim>\<open>scale\<close>, \<^verbatim>\<open>axis\<close> or \<^verbatim>\<open>legend\<close> turned into \<^verbatim>\<open>false\<close>. The mark is copied.
  Each of \<^verbatim>\<open>data\<close>, \<^verbatim>\<open>transform\<close> and \<^verbatim>\<open>config\<close> is in the result, unchanged, exactly
  when it is in the input with a truthy value.
\<close>

theorem fromSpec_normalizes:
  "length (encodings (fromSpec spec)) = length (keys (getProp spec ''encoding''))
   \<and> (\<forall>i < length (keys (getProp spec ''encoding'')).
        objProp (encodings (fromSpec spec) ! i) ''channel''
          = (if getProp (getProp (getProp spec ''encoding'')
                           (keys (getProp spec ''encoding'') ! i)) ''channel''
                  = JUndefined
             then JStr (keys (getProp spec ''encoding'') ! i)
             else getProp (getProp (getProp spec ''encoding'')
                             (keys (getProp spec ''encoding'') ! i)) ''channel'')
        \<and> (\<forall>p. p \<noteq> ''channel'' \<longrightarrow>
              objProp (encodings (fromSpec spec) ! i) p
                = expectedProp
                    (getProp (getProp spec ''encoding'')
                       (keys (getProp spec ''encoding'') ! i)) p))
   \<and> mark (fromSpec spec) = getProp spec ''mark''
   \<and> data (fromSpec spec)
       = (if ''data'' \<in> set (keys spec) \<and> truthy (getProp spec ''data'')
          then Some (getProp spec ''data'') else None)
   \<and> transform (fromSpec spec)
       = (if ''transform'' \<in> set (keys spec) \<and> truthy (getProp spec ''transform'')
          then Some (getProp spec ''transform'') else None)
   \<and> config (fromSpec spec)
       = (if ''config'' \<in> set (keys spec) \<and> truthy (getProp spec ''config'')
          then Some (getProp spec ''config'') else None)"
proof -
  have enc: "objProp (encodings (fromSpec spec) ! i) p
      = objProp (toEncodingQuery (getProp spec ''encoding'')
                   (keys (getProp spec ''encoding'') ! i)) p"
    if "i < length (keys (getProp spec ''encoding''))" for i p
    using that by (simp add: fromSpec_def)
  have ch: "objProp (encodings (fromSpec spec) ! i) ''channel''
      = (if getProp (getProp (getProp spec ''encoding'')
                       (keys (getProp spec ''encoding'') ! i)) ''channel''
              = JUndefined
         then JStr (keys (getProp spec ''encoding'') ! i)
         else getProp (getProp (getProp spec ''encoding'')
                         (keys (getProp spec ''encoding'') ! i)) ''channel'')"
    if "i < length (keys (getProp spec ''encoding''))" for i
    using that by (simp add: enc toEncodingQuery_objProp)
  have other: "objProp (encodings (fromSpec spec) ! i) p
      = expectedProp (getProp (getProp spec ''encoding'')
                        (keys (getProp spec ''encoding'') ! i)) p"
    if "i < length (keys (getProp spec ''encoding''))" and "p \<noteq> ''channel''" for i p
    using that by (simp add: enc toEncodingQuery_objProp)
  have len: "length (encodings (fromSpec spec)) = length (keys (getProp spec ''encoding''))"
    by (simp add: fromSpec_def)
  have m: "mark (fromSpec spec) = getProp spec ''mark''"
    by (simp add: fromSpec_def)
  have d: "data (fromSpec spec)
      = (if ''data'' \<in> set (keys spec) \<and> truthy (getProp spec ''data'')
         then Some (getProp spec ''data'') else None)"
    using topLevel_present [of spec "''data''"] by (simp add: fromSpec_def)
  have t: "transform (fromSpec spec)
      = (if ''transform'' \<in> set (keys spec) \<and> truthy (getProp spec ''transform'')
         then Some (getProp spec ''transform'') else None)"
    using topLevel_present [of spec "''transform''"] by (simp add: fromSpec_def)
  have c: "config (fromSpec spec)
      = (if ''config'' \<in> set (keys spec) \<and> truthy (getProp spec ''config'')
         then Some (getProp spec ''config'') else None)"
    using topLevel_present [of spec "''config''"] by (simp add: fromSpec_def)
  from len ch other m d t c show ?thesis by blast
qed

lemma exampleDocument_keys:
  "keys exampleDocument = [''mark'', ''encoding'', ''config'']"
  "keys (getProp exampleDocument ''encoding'') = [''x'', ''y'', ''size'']"
  "getProp exampleDocument ''config'' = JObj []"
  "getProp (getProp exampleDocument ''encoding'') ''y''
     = JObj [(''field'', JStr ''x''), (''type'', JStr ''quantitative''), (''scale'', JNull)]"
  "getProp (getProp exampleDocument ''encoding'') ''size''
     = JObj [(''aggregate'', JStr ''count''), (''type'', JStr ''quantitative'')]"
  by (simp_all add: exampleDocument_def keys_def getProp_def objProp_def)

lemma nullDataDocument_keys:
  "keys nullDataDocument = [''data'', ''mark'', ''encoding'']"
  "getProp nullDataDocument ''data'' = JNull"
  by (simp_all add: nullDataDocument_def keys_def getProp_def objProp_def)

theorem fromSpec_normalizes_witness:
  "length (encodings (fromSpec exampleDocument)) = 3
   \<and> objProp (encodings (fromSpec exampleDocument) ! 1) ''channel'' = JStr ''y''
   \<and> objProp (encodings (fromSpec exampleDocument) ! 1) ''type'' = JStr ''quantitative''
   \<and> objProp (encodings (fromSpec exampleDocument) ! 1) ''scale'' = JBool False
   \<and> objProp (encodings (fromSpec exampleDocument) ! 2) ''field'' = JStr ''*''
   \<and> data (fromSpec exampleDocument) = None
   \<and> transform (fromSpec exampleDocument) = None
   \<and> config (fromSpec exampleDocument) = Some (JObj [])
   \<and> data (fromSpec nullDataDocument) = None"
proof -
  note inst = fromSpec_normalizes [of exampleDocument, unfolded exampleDocument_keys]
  have y: "(1::nat) < length [''x'', ''y'', ''size'']"
    and s: "(2::nat) < length [''x'', ''y'', ''size'']"
    by simp_all
  from inst have len: "length (encodings (fromSpec exampleDocument)) = 3"
    by simp
  have own: "getProp (JObj [(''field'', JStr ''x''), (''type'', JStr ''quantitative''),
      (''scale'', JNull)]) ''channel'' = JUndefined"
    by (simp add: getProp_def objProp_def)
  from inst y have "objProp (encodings (fromSpec exampleDocument) ! 1) ''channel''
      = (if getProp (getProp (getProp exampleDocument ''encoding'')
                       ([''x'', ''y'', ''size''] ! 1)) ''channel'' = JUndefined
         then JStr ([''x'', ''y'', ''size''] ! 1)
         else getProp (getProp (getProp exampleDocument ''encoding'')
                         ([''x'', ''y'', ''size''] ! 1)) ''channel'')"
    by blast
  then have ch: "objProp (encodings (fromSpec exampleDocument) ! 1) ''channel''
      = JStr ''y''"
    by (simp add: exampleDocument_keys own)
  from inst y have py: "objProp (encodings (fromSpec exampleDocument) ! 1) p
      = expectedProp (JObj [(''field'', JStr ''x''), (''type'', JStr ''quantitative''),
          (''scale'', JNull)]) p" if "p \<noteq> ''channel''" for p
    using that by (auto simp: exampleDocument_keys)
  from inst s have ps: "objProp (encodings (fromSpec exampleDocument) ! 2) p
      = expectedProp
          (JObj [(''aggregate'', JStr ''count''), (''type'', JStr ''quantitative'')]) p"
    if "p \<noteq> ''channel''" for p
    using that by (auto simp: exampleDocument_keys)
  note ev = expectedProp_def normalizeValue_def countWithoutField_def getProp_def objProp_def
    isEncodingTopLevelProperty_def ENCODING_TOPLEVEL_PROPS_def
  have a: "objProp (encodings (fromSpec exampleDocument) ! 1) ''type'' = JStr ''quantitative''"
    using py [of "''type''"] by (simp add: ev)
  have b: "objProp (encodings (fromSpec exampleDocument) ! 1) ''scale'' = JBool False"
    using py [of "''scale''"] by (simp add: ev)
  have c: "objProp (encodings (fromSpec exampleDocument) ! 2) ''field'' = JStr ''*''"
    using ps [of "''field''"] by (simp add: ev)
  from inst have d: "data (fromSpec exampleDocument) = None
      \<and> transform (fromSpec exampleDocument) = None
      \<and> config (fromSpec exampleDocument) = Some (JObj [])"
    by simp
  have e: "data (fromSpec nullDataDocument) = None"
    using fromSpec_normalizes [of nullDataDocument, unfolded nullDataDocument_keys]
    by simp
  from len ch a b c d e show ?thesis by simp
qed

text \<open>The whole result for the example, computed.\<close>

lemma fromSpec_exampleDocument:
  "fromSpec exampleDocument =
     \<lparr>data = None, mark = JStr ''point'', transform = None,
      encodings =
        [[(''channel'', JStr ''x''), (''field'', JStr ''x''), (''type'', JStr ''quantitative'')],
         [(''channel'', JStr ''y''), (''field'', JStr ''x''), (''type'', JStr ''quantitative''),
          (''scale'', JBool False)],
         [(''channel'', JStr ''size''), (''aggregate'', JStr ''count''),
          (''type'', JStr ''quantitative''), (''field'', JStr ''*'')]],
      config = Some (JObj [])\<rparr>"
  by (simp add: fromSpec_def exampleDocument_def toEncodingQuery_def copyProp_def keys_def
      getProp_def objProp_def isEncodingTopLevelProperty_def ENCODING_TOPLEVEL_PROPS_def
      contains_def isFieldQuery_def Let_def)

section \<open>Wildcard presence\<close>

lemma propWildcard_iff:
  "propWildcard exclude encQ p \<longleftrightarrow>
     isEncodingTopLevelProperty p
     \<and> ((isWildcard (objProp encQ p) \<and> \<not> exclude p)
        \<or> (\<exists>child \<in> set (keys (objProp encQ p)).
              child \<notin> {''enum'', ''name''}
              \<and> isWildcard (getProp (objProp encQ p) child)
              \<and> \<not> exclude (toKey (EncodingNestedProp p child))))"
  by (auto simp: propWildcard_def childWildcard_def contains_def list_ex_iff)

lemma hasWildcard_iff:
  "hasWildcard specQ ex \<longleftrightarrow>
     (isWildcard (mark specQ) \<and> \<not> excludeMap ex ''mark'')
     \<or> (\<exists>encQ \<in> set (encodings specQ). \<exists>p \<in> set (map fst encQ).
          isEncodingTopLevelProperty p
          \<and> ((isWildcard (objProp encQ p) \<and> \<not> excludeMap ex p)
             \<or> (\<exists>child \<in> set (keys (objProp encQ p)).
                   child \<notin> {''enum'', ''name''}
                   \<and> isWildcard (getProp (objProp encQ p) child)
                   \<and> \<not> excludeMap ex (toKey (EncodingNestedProp p child)))))"
  unfolding hasWildcard_def Let_def list_ex_iff propWildcard_iff by auto

text \<open>
  So \<^verbatim>\<open>hasWildcard\<close> returns true exactly when a wildcard sits under a key that is
  not excluded: the mark, a top-level encoding property, or a child of one other
  than \<^verbatim>\<open>enum\<close> and \<^verbatim>\<open>name\<close>. A placeholder object under an excluded key, having no
  child but its name and its enumeration, is hidden.
\<close>

lemma hasWildcard_placeholder_object_excluded:
  "hasWildcard (specWith Mark_POINT [[(''channel'', wildcardChannel)]])
     (Some [Property_CHANNEL]) = False"
  by (simp add: hasWildcard_def specWith_def isWildcard_def excludeMap_def propWildcard_def
      isEncodingTopLevelProperty_def ENCODING_TOPLEVEL_PROPS_def objProp_def
      SHORT_WILDCARD_def wildcardChannel_def keys_def childWildcard_def contains_def)

lemma string_of_nat_0: "string_of_nat 0 = ''0''"
  by (simp add: string_of_nat.simps digit_def)

text \<open>
  C10. The claim: an excluded property key never causes \<^verbatim>\<open>hasWildcard\<close> to return
  true, and a wildcard top-level property is detected only by the top-level
  check. The code does not do so for the short wildcard: the nested scan
  \<^verbatim>\<open>for (const childProp in propObj)\<close> also visits the characters of a string, its
  indexed children, so \<^verbatim>\<open>'?'\<close> under the excluded key \<^verbatim>\<open>channel\<close> is found again as
  the child \<^verbatim>\<open>0\<close> of that key, and \<^verbatim>\<open>hasWildcard\<close> returns true for a query whose
  only wildcard is excluded.
\<close>

theorem hasWildcard_short_wildcard_excluded:
  "hasWildcard (specWith Mark_POINT [[(''channel'', SHORT_WILDCARD)]])
     (Some [Property_CHANNEL]) = True"
  by (simp add: hasWildcard_def specWith_def isWildcard_def excludeMap_def propWildcard_def
      isEncodingTopLevelProperty_def ENCODING_TOPLEVEL_PROPS_def objProp_def
      SHORT_WILDCARD_def keys_def childWildcard_def contains_def getProp_def
      string_of_nat_0)

end
